theory Spec2Isabelle
  imports Complex_Main "HOL-Library.Word"
begin

section \<open>Data model\<close>

text \<open>
  The editor's canvas module (\<^verbatim>\<open>canvas.js\<close>) keeps its state in module-level
  variables and in the singletons of the modules it imports (area, transform, rotation,
  flip). All of it is gathered in one record that every operation takes and returns.

  JavaScript numbers are modelled as \<open>real\<close> (rounding errors of IEEE doubles and NaN
  are outside the model); \<^verbatim>\<open>Math.round\<close> rounds halves upwards.
\<close>

definition Math_round :: "real \<Rightarrow> int" where
  "Math_round v = \<lfloor>v + 1 / 2\<rfloor>"

record point =
  point_x :: real
  point_y :: real

text \<open>The Area singleton: \<^verbatim>\<open>{ x, y, width, height }\<close> in screen space.\<close>

record area =
  area_x :: real
  area_y :: real
  area_width :: real
  area_height :: real

text \<open>The Transform singleton: the six scalars of the 2D matrix.\<close>

record transform =
  tr_a :: real
  tr_b :: real
  tr_c :: real
  tr_d :: real
  tr_e :: real
  tr_f :: real

record flip =
  flipH :: int
  flipV :: int

text \<open>
  \<^verbatim>\<open>eventToEnable\<close> is one of the strings \<^verbatim>\<open>""\<close>, \<^verbatim>\<open>"select"\<close>,
  \<^verbatim>\<open>"resize"\<close>, \<^verbatim>\<open>"move"\<close>, \<^verbatim>\<open>"drag"\<close>.
\<close>

datatype gesture = NoGesture | Select | Resize | Move | Drag

datatype error = TypeError | IndexSizeError

text \<open>Callbacks handed to \<^verbatim>\<open>requestAnimationFrame\<close>.\<close>

datatype frame_callback =
    DrawCanvasCb          \<comment> \<open>\<^verbatim>\<open>drawCanvas\<close>\<close>
  | MoveDoneCb            \<comment> \<open>\<^verbatim>\<open>() => { drawCanvas(); handlingMove = false; }\<close>\<close>

text \<open>
  Calls that leave the module or paint the visible canvas are recorded in a trace, in
  the order they happen; so are the calls of the four per-state mutators, with the
  coordinates they are given.
\<close>

datatype effect =
    DrawCanvas
  | DrawImage
  | ResetCropPanelInputs
  | MutatorCall gesture real real

record pointer_event =
  which :: int
  clientX :: real
  clientY :: real
  shiftKey :: bool
  ctrlKey :: bool

record state =
  canvasWidth :: int
  canvasHeight :: int
  pointerPosition :: "point option"
  eventToEnable :: gesture
  keepMask :: bool
  selectionDisabled :: bool
  snapArea :: bool
  cutModeEnabled :: bool
  handlingMove :: bool
  isMobile :: bool
  canvasImage_width :: int
  canvasImage_height :: int
  canvasImage_src :: string
  area :: area
  direction :: string
  transform :: transform
  rotation :: real
  flip :: flip
  panelVisible :: bool
  cropBtnVisible :: bool
  cursor :: string
  userSelect :: string
  cutModeBtnText :: string
  pointermoveListener :: bool
  pointerupListener :: bool
  changeCursorListener :: bool
  raf :: "frame_callback list"
  trace :: "effect list"
  uncaught :: "error list"

section \<open>Collaborators outside the module\<close>

text \<open>
  Modelled from the spec: \<^verbatim>\<open>resetArea\<close> of the area module is not part of the
  sources at hand. The spec has a selection start "from scratch at the pointer-down
  point", and an Area of zero width and zero height for "no selection"; without a point
  the Area is \<^verbatim>\<open>{0,0,0,0}\<close>.
\<close>

definition resetArea :: "point option \<Rightarrow> area" where
  "resetArea p =
     (case p of
        None \<Rightarrow> \<lparr>area_x = 0, area_y = 0, area_width = 0, area_height = 0\<rparr>
      | Some q \<Rightarrow> \<lparr>area_x = point_x q, area_y = point_y q, area_width = 0, area_height = 0\<rparr>)"

text \<open>
  Modelled from the spec: \<^verbatim>\<open>getTransformedPoint\<close> of the transform module is not
  part of the sources at hand. The spec gives the inverse of the matrix for
  \<open>b = c = 0\<close>: \<open>ix = (x - e) / a\<close>, \<open>iy = (y - f) / d\<close>.
\<close>

definition getTransformedPoint :: "transform \<Rightarrow> real \<Rightarrow> real \<Rightarrow> point" where
  "getTransformedPoint t px py =
     \<lparr>point_x = (px - tr_e t) / tr_a t, point_y = (py - tr_f t) / tr_d t\<rparr>"

text \<open>
  Modelled from the spec: \<^verbatim>\<open>translateContext\<close> of the transform module is not
  part of the sources at hand. The spec's \<^verbatim>\<open>translate(dx,dy)\<close> "adds to e,f
  directly".
\<close>

definition translateContext :: "transform \<Rightarrow> real \<Rightarrow> real \<Rightarrow> transform" where
  "translateContext t dx dy = t\<lparr>tr_e := tr_e t + dx, tr_f := tr_f t + dy\<rparr>"


text \<open>
  Modelled from the spec: the direction strings of the area module, which is not part of
  the sources at hand. The spec names the eight resize handles: a direction is a
  combination of \<open>n\<close>, \<open>s\<close>, \<open>e\<close>, \<open>w\<close> such as \<open>ne\<close> or \<open>sw\<close>, or empty.
  \<^verbatim>\<open>changeCursor\<close> makes the cursor name \<^verbatim>\<open>`${direction}-resize`\<close> of it, and
  these eight are the directions that name a resize cursor.
\<close>

definition resize_directions :: "string list" where
  "resize_directions = [''n'', ''s'', ''w'', ''e'', ''nw'', ''ne'', ''sw'', ''se'']"

section \<open>The per-state mutators\<close>

definition selectArea :: "state \<Rightarrow> real \<Rightarrow> real \<Rightarrow> state" where
  "selectArea st px py =
     st\<lparr>area := (area st)\<lparr>area_width := px - area_x (area st),
                            area_height := py - area_y (area st)\<rparr>\<rparr>"

text \<open>\<^verbatim>\<open>direction[0] === c\<close>: false on the empty string.\<close>

definition first_char_is :: "string \<Rightarrow> char \<Rightarrow> bool" where
  "first_char_is s c = (case s of [] \<Rightarrow> False | k # _ \<Rightarrow> k = c)"

text \<open>\<^verbatim>\<open>direction.includes(c)\<close> for a one-character string \<open>c\<close>.\<close>

definition str_includes :: "string \<Rightarrow> char \<Rightarrow> bool" where
  "str_includes s c = (c \<in> set s)"

definition resizeArea :: "state \<Rightarrow> real \<Rightarrow> real \<Rightarrow> state" where
  "resizeArea st px py =
     (let ar = area st;
          d = direction st;
          ar1 = (if first_char_is d CHR ''n''
                 then ar\<lparr>area_height := area_y ar - py + area_height ar, area_y := py\<rparr>
                 else if first_char_is d CHR ''s''
                 then ar\<lparr>area_height := py - area_y ar\<rparr>
                 else ar);
          ar2 = (if str_includes d CHR ''w''
                 then ar1\<lparr>area_width := area_x ar1 - px + area_width ar1, area_x := px\<rparr>
                 else if str_includes d CHR ''e''
                 then ar1\<lparr>area_width := px - area_x ar1\<rparr>
                 else ar1)
      in st\<lparr>area := ar2\<rparr>)"

text \<open>
  \<^verbatim>\<open>updatePoint\<close> is called with the pairs \<^verbatim>\<open>("x", "width")\<close> and
  \<^verbatim>\<open>("y", "height")\<close> of property names.
\<close>

datatype pointName = PointX | PointY

datatype dimensionName = DimWidth | DimHeight

fun point_get :: "point \<Rightarrow> pointName \<Rightarrow> real" where
  "point_get p PointX = point_x p"
| "point_get p PointY = point_y p"

fun area_dimension :: "area \<Rightarrow> dimensionName \<Rightarrow> real" where
  "area_dimension ar DimWidth = area_width ar"
| "area_dimension ar DimHeight = area_height ar"

fun canvasImage_dimension :: "state \<Rightarrow> dimensionName \<Rightarrow> real" where
  "canvasImage_dimension st DimWidth = of_int (canvasImage_width st)"
| "canvasImage_dimension st DimHeight = of_int (canvasImage_height st)"

fun area_set_point :: "area \<Rightarrow> pointName \<Rightarrow> real \<Rightarrow> area" where
  "area_set_point ar PointX v = ar\<lparr>area_x := v\<rparr>"
| "area_set_point ar PointY v = ar\<lparr>area_y := v\<rparr>"

text \<open>
  Reading a property of \<^verbatim>\<open>pointerPosition\<close> while it is still \<^verbatim>\<open>null\<close>
  throws a \<^verbatim>\<open>TypeError\<close>.
\<close>

definition updatePoint ::
  "state \<Rightarrow> real \<Rightarrow> pointName \<Rightarrow> dimensionName \<Rightarrow> real \<Rightarrow> real \<Rightarrow> error + state" where
  "updatePoint st pt pn dn offset scale =
     (case pointerPosition st of
        None \<Rightarrow> Inl TypeError
      | Some pp \<Rightarrow>
          (let ar = area st;
               diff = pt - point_get pp pn;
               dimension = canvasImage_dimension st dn;
               scaledDimension = dimension * scale;
               areaDimension = area_dimension ar dn
           in if areaDimension > 0 then
                (if offset + 8 > diff \<and> offset - 8 < diff
                 then Inr (st\<lparr>area := area_set_point ar pn offset\<rparr>)
                 else if offset + 8 + scaledDimension > diff + areaDimension
                       \<and> offset - 8 + scaledDimension < diff + areaDimension
                 then Inr (st\<lparr>area := area_set_point ar pn (offset + scaledDimension - areaDimension)\<rparr>)
                 else Inr (st\<lparr>area := area_set_point ar pn diff\<rparr>))
              else
                (let diff2 = diff + areaDimension
                 in if offset + 8 > diff2 \<and> offset - 8 < diff2
                    then Inr (st\<lparr>area := area_set_point ar pn (offset - areaDimension)\<rparr>)
                    else if offset + 8 + scaledDimension > diff
                          \<and> offset - 8 + scaledDimension < diff
                    then Inr (st\<lparr>area := area_set_point ar pn (offset + scaledDimension)\<rparr>)
                    else Inr (st\<lparr>area := area_set_point ar pn diff\<rparr>))))"

definition moveArea :: "state \<Rightarrow> real \<Rightarrow> real \<Rightarrow> error + state" where
  "moveArea st px py =
     (if snapArea st then
        (let scale = tr_a (transform st); e = tr_e (transform st); f = tr_f (transform st)
         in case updatePoint st px PointX DimWidth e scale of
              Inl err \<Rightarrow> Inl err
            | Inr st1 \<Rightarrow> updatePoint st1 py PointY DimHeight f scale)
      else
        (case pointerPosition st of
           None \<Rightarrow> Inl TypeError
         | Some pp \<Rightarrow>
             Inr (st\<lparr>area := (area st)\<lparr>area_x := px - point_x pp,
                                         area_y := py - point_y pp\<rparr>\<rparr>)))"

definition dragImage :: "state \<Rightarrow> real \<Rightarrow> real \<Rightarrow> state" where
  "dragImage st px py =
     (case pointerPosition st of
        None \<Rightarrow> st
      | Some pp \<Rightarrow>
          (let pt = getTransformedPoint (transform st) px py
           in st\<lparr>transform :=
                  translateContext (transform st) (point_x pt - point_x pp) (point_y pt - point_y pp)\<rparr>))"

section \<open>Redraw scheduling\<close>

definition requestAnimationFrame :: "frame_callback \<Rightarrow> state \<Rightarrow> state" where
  "requestAnimationFrame cb st = st\<lparr>raf := raf st @ [cb]\<rparr>"

text \<open>
  \<^verbatim>\<open>drawCanvas\<close> paints the visible canvas (image, then the Area overlay); the
  model records that it ran.
\<close>

definition drawCanvas :: "state \<Rightarrow> state" where
  "drawCanvas st = st\<lparr>trace := trace st @ [DrawCanvas]\<rparr>"

fun run_callback :: "frame_callback \<Rightarrow> state \<Rightarrow> state" where
  "run_callback DrawCanvasCb st = drawCanvas st"
| "run_callback MoveDoneCb st = (drawCanvas st)\<lparr>handlingMove := False\<rparr>"

text \<open>
  One animation frame: the browser runs the callbacks requested since the last frame, in
  the order they were requested.
\<close>

definition animationFrame :: "state \<Rightarrow> state" where
  "animationFrame st = fold run_callback (raf st) (st\<lparr>raf := []\<rparr>)"

section \<open>The interaction controller\<close>

definition setCanvasCursor :: "string \<Rightarrow> state \<Rightarrow> state" where
  "setCanvasCursor name st = st\<lparr>cursor := name\<rparr>"

definition allowCropAreaModification :: "state \<Rightarrow> state" where
  "allowCropAreaModification st = st\<lparr>cropBtnVisible := True, changeCursorListener := True\<rparr>"

text \<open>
  \<^verbatim>\<open>area.width && area.height\<close>: truthy exactly when both numbers are non-zero.
\<close>

definition areaDrawn :: "area \<Rightarrow> bool" where
  "areaDrawn ar = (area_width ar \<noteq> 0 \<and> area_height ar \<noteq> 0)"

text \<open>
  \<^verbatim>\<open>setDirection\<close> and \<^verbatim>\<open>isInsideArea\<close> belong to the area module, which is
  not part of the sources at hand; the handler takes them as parameters.
  \<^verbatim>\<open>setDirection(x, y)\<close> detects the resize handle under the pointer, keeps it
  as the Area's direction (what \<^verbatim>\<open>getDirection\<close> reads later) and returns it.
\<close>

definition handlePointerdown ::
  "(area \<Rightarrow> real \<Rightarrow> real \<Rightarrow> string) \<Rightarrow> (area \<Rightarrow> real \<Rightarrow> real \<Rightarrow> bool) \<Rightarrow>
   state \<Rightarrow> pointer_event \<Rightarrow> state" where
  "handlePointerdown setDirection isInsideArea st ev =
     (if which ev \<noteq> 1 \<or> panelVisible st then st
      else if cutModeEnabled st then
        st\<lparr>eventToEnable := Resize,
           pointermoveListener := True,
           pointerupListener := True,
           changeCursorListener := False\<rparr>
      else
        (let px = clientX ev; py = clientY ev;
             ar = area st;
             drawn = areaDrawn ar;
             dir = setDirection ar px py;
             st1 = st\<lparr>direction := dir, eventToEnable := Select, keepMask := drawn\<rparr>;
             st2 = (if shiftKey ev \<or> selectionDisabled st then
                      st1\<lparr>pointerPosition := Some (getTransformedPoint (transform st) px py),
                          eventToEnable := Drag\<rparr>
                    else if (ctrlKey ev \<or> isMobile st) \<and> drawn \<and> isInsideArea ar px py then
                      st1\<lparr>pointerPosition :=
                            Some \<lparr>point_x = px - area_x ar, point_y = py - area_y ar\<rparr>,
                          eventToEnable := Move\<rparr>
                    else if dir \<noteq> [] \<and> drawn then
                      st1\<lparr>eventToEnable := Resize\<rparr>
                    else
                      st1\<lparr>area := resetArea (Some \<lparr>point_x = px, point_y = py\<rparr>)\<rparr>)
         in (requestAnimationFrame DrawCanvasCb st2)
              \<lparr>cropBtnVisible := False,
               userSelect := ''none'',
               pointermoveListener := True,
               pointerupListener := True,
               changeCursorListener := False\<rparr>))"

text \<open>
  The \<^verbatim>\<open>switch\<close> of \<^verbatim>\<open>handlePointermove\<close>; no case matches the empty
  string.
\<close>

definition call_mutator :: "state \<Rightarrow> real \<Rightarrow> real \<Rightarrow> error + state" where
  "call_mutator st px py =
     (case eventToEnable st of
        Select \<Rightarrow> Inr (selectArea st px py)
      | Resize \<Rightarrow> Inr (resizeArea st px py)
      | Move \<Rightarrow> moveArea st px py
      | Drag \<Rightarrow> Inr (dragImage st px py)
      | NoGesture \<Rightarrow> Inr st)"

text \<open>The trace entry for the call the \<^verbatim>\<open>switch\<close> is about to make.\<close>

definition log_mutator_call :: "state \<Rightarrow> real \<Rightarrow> real \<Rightarrow> state" where
  "log_mutator_call st px py =
     (if eventToEnable st = NoGesture then st
      else st\<lparr>trace := trace st @ [MutatorCall (eventToEnable st) px py]\<rparr>)"

text \<open>
  A mutator that throws ends the handler at once: the exception stays uncaught, no redraw
  is requested and \<^verbatim>\<open>handlingMove\<close> stays set.
\<close>

definition handlePointermove :: "state \<Rightarrow> real \<Rightarrow> real \<Rightarrow> state" where
  "handlePointermove st cx cy =
     (if handlingMove st then st
      else
        (let st1 = st\<lparr>handlingMove := True\<rparr>;
             px = (if cx > 0 then cx else 0);
             py = (if cy > 0 then cy else 0);
             st2 = log_mutator_call st1 px py
         in case call_mutator st2 px py of
              Inl err \<Rightarrow> st2\<lparr>uncaught := uncaught st2 @ [err]\<rparr>
            | Inr st3 \<Rightarrow> requestAnimationFrame MoveDoneCb st3))"

text \<open>A burst of pointer-move events, handled one after the other.\<close>

definition pointermoveBurst :: "state \<Rightarrow> (real \<times> real) list \<Rightarrow> state" where
  "pointermoveBurst st moves = fold (\<lambda>(cx, cy) s. handlePointermove s cx cy) moves st"

text \<open>
  \<^verbatim>\<open>drawImage(canvas.getContext("2d"))\<close> on the visible canvas repaints the image
  without the Area overlay; the model records that it ran.
\<close>

definition handlePointerup :: "state \<Rightarrow> state" where
  "handlePointerup st =
     (let ar = area st;
          st1 = st\<lparr>eventToEnable := NoGesture, userSelect := ''auto''\<rparr>;
          st2 = (if areaDrawn ar then allowCropAreaModification st1
                 else
                   (let st3 = st1\<lparr>keepMask := False\<rparr>;
                        st4 = st3\<lparr>trace := trace st3 @ [DrawImage]\<rparr>;
                        st5 = setCanvasCursor ''default'' st4
                    in st5\<lparr>trace := trace st5 @ [ResetCropPanelInputs]\<rparr>))
      in st2\<lparr>pointermoveListener := False, pointerupListener := False\<rparr>)"

text \<open>
  \<^verbatim>\<open>getDirection().split("")\<close> is the list of the direction's characters, and
  \<^verbatim>\<open>includes\<close> looks a character up in it.
\<close>

definition handleDoubleClick :: "state \<Rightarrow> state" where
  "handleDoubleClick st =
     (let ar = area st in
      if \<not> areaDrawn ar then st
      else
        (let scale = tr_a (transform st); e = tr_e (transform st); f = tr_f (transform st);
             width = of_int (canvasImage_width st);
             height = of_int (canvasImage_height st);
             d = direction st;
             ar1 = (if area_height ar > 0 then
                      (if str_includes d CHR ''n'' then
                         ar\<lparr>area_height := area_height ar + area_y ar - f, area_y := f\<rparr>
                       else if str_includes d CHR ''s'' then
                         ar\<lparr>area_height :=
                              f + area_height ar + height * scale - (area_y ar + area_height ar)\<rparr>
                       else ar)
                    else
                      (let scaledHeight = height * scale in
                       if str_includes d CHR ''n'' then
                         ar\<lparr>area_height := area_height ar - (scaledHeight - area_y ar) - f,
                            area_y := scaledHeight + f\<rparr>
                       else if str_includes d CHR ''s'' then
                         ar\<lparr>area_height := area_height ar + f - (area_y ar + area_height ar)\<rparr>
                       else ar));
             ar2 = (if area_width ar1 > 0 then
                      (if str_includes d CHR ''w'' then
                         ar1\<lparr>area_width := area_width ar1 + area_x ar1 - e, area_x := e\<rparr>
                       else if str_includes d CHR ''e'' then
                         ar1\<lparr>area_width :=
                               e + area_width ar1 + width * scale - (area_x ar1 + area_width ar1)\<rparr>
                       else ar1)
                    else
                      (if str_includes d CHR ''w'' then
                         (let scaledWidth = width * scale in
                          ar1\<lparr>area_width := area_width ar1 - (scaledWidth - area_x ar1) - e,
                              area_x := scaledWidth + e\<rparr>)
                       else if str_includes d CHR ''e'' then
                         ar1\<lparr>area_width := area_width ar1 + e - (area_x ar1 + area_width ar1)\<rparr>
                       else ar1))
         in requestAnimationFrame DrawCanvasCb (st\<lparr>area := ar2\<rparr>)))"

section \<open>Loading an image\<close>





section \<open>The crop extractor\<close>

text \<open>
  A raster (an image, a canvas bitmap or an \<^verbatim>\<open>ImageData\<close>) is a width, a height and
  the RGBA value of each pixel; reading outside of it gives transparent black, as the
  canvas API does.
\<close>

type_synonym rgba = "8 word \<times> 8 word \<times> 8 word \<times> 8 word"

definition transparent :: rgba where
  "transparent = (0, 0, 0, 0)"

record raster =
  r_width :: int
  r_height :: int
  r_pixels :: "int \<Rightarrow> int \<Rightarrow> rgba"

definition pixel_at :: "raster \<Rightarrow> int \<Rightarrow> int \<Rightarrow> rgba" where
  "pixel_at r i j =
     (if 0 \<le> i \<and> i < r_width r \<and> 0 \<le> j \<and> j < r_height r then r_pixels r i j
      else transparent)"

record rect =
  rect_x :: int
  rect_y :: int
  rect_width :: int
  rect_height :: int

text \<open>
  Two things are the browser's own, and the model takes them as parameters. What it paints
  for a rotated image, or at a fractional offset, depends on its resampling filter. And a
  canvas keeps its pixels with the colours multiplied by alpha: an opaque pixel comes back
  from it as it went in and a fully transparent one as transparent black, but what comes
  back for a pixel in between depends on how the browser rounds.
\<close>

record rasteriser =
  resampled :: "raster \<Rightarrow> real \<Rightarrow> int \<Rightarrow> int \<Rightarrow> real \<Rightarrow> real \<Rightarrow> int \<Rightarrow> int \<Rightarrow> rgba"
  premultiplied :: "rgba \<Rightarrow> rgba"

definition alpha_of :: "rgba \<Rightarrow> 8 word" where
  "alpha_of p = snd (snd (snd p))"

text \<open>What a canvas gives back for a pixel that was written to it.\<close>

definition stored_pixel :: "rasteriser \<Rightarrow> rgba \<Rightarrow> rgba" where
  "stored_pixel browser p =
     (if alpha_of p = 255 then p
      else if alpha_of p = 0 then transparent
      else premultiplied browser p)"

definition is_whole :: "real \<Rightarrow> bool" where
  "is_whole v = (of_int \<lfloor>v\<rfloor> = v)"

text \<open>
  \<^verbatim>\<open>drawImage(ctx, image)\<close> on a freshly sized (hence blank) canvas of \<open>cw\<close> by
  \<open>ch\<close> pixels whose context is translated by \<open>(tx, ty)\<close>. Without rotation and at a
  whole-pixel offset every image pixel lands on one canvas pixel, which was transparent
  before; a flip mirrors the image within its own footprint. Pixels that fall outside the
  canvas are lost.
\<close>

definition drawImage :: "rasteriser \<Rightarrow> state \<Rightarrow> int \<Rightarrow> int \<Rightarrow> real \<Rightarrow> real \<Rightarrow> raster \<Rightarrow> raster" where
  "drawImage browser st cw ch tx ty img =
     (let radians = rotation st;
          fh = flipH (flip st);
          fv = flipV (flip st)
      in if radians = 0 \<and> is_whole tx \<and> is_whole ty \<and> (fh = 1 \<or> fh = - 1) \<and> (fv = 1 \<or> fv = - 1)
         then \<lparr>r_width = cw, r_height = ch,
               r_pixels = (\<lambda>i j. stored_pixel browser (pixel_at img
                  (if fh = - 1 then r_width img - 1 - (i - \<lfloor>tx\<rfloor>) else i - \<lfloor>tx\<rfloor>)
                  (if fv = - 1 then r_height img - 1 - (j - \<lfloor>ty\<rfloor>) else j - \<lfloor>ty\<rfloor>)))\<rparr>
         else \<lparr>r_width = cw, r_height = ch,
               r_pixels = resampled browser img radians fh fv tx ty\<rparr>)"

text \<open>
  \<^verbatim>\<open>ctx.getImageData(sx, sy, sw, sh)\<close>: an \<^verbatim>\<open>IndexSizeError\<close> when \<open>sw\<close> or
  \<open>sh\<close> is zero; otherwise the rectangle spanned by the corners \<open>(sx, sy)\<close> and
  \<open>(sx + sw, sy + sh)\<close>, also when \<open>sw\<close> or \<open>sh\<close> is negative.
\<close>

definition ctx_getImageData :: "raster \<Rightarrow> int \<Rightarrow> int \<Rightarrow> int \<Rightarrow> int \<Rightarrow> error + raster" where
  "ctx_getImageData canvas sx sy sw sh =
     (if sw = 0 \<or> sh = 0 then Inl IndexSizeError
      else Inr \<lparr>r_width = \<bar>sw\<bar>, r_height = \<bar>sh\<bar>,
                r_pixels = (\<lambda>i j. pixel_at canvas (min sx (sx + sw) + i) (min sy (sy + sh) + j))\<rparr>)"

text \<open>\<^verbatim>\<open>ctx.putImageData(imageData, dx, dy)\<close> replaces the pixels it covers.\<close>

definition ctx_putImageData :: "rasteriser \<Rightarrow> raster \<Rightarrow> raster \<Rightarrow> int \<Rightarrow> int \<Rightarrow> raster" where
  "ctx_putImageData browser canvas imageData dx dy =
     canvas\<lparr>r_pixels := (\<lambda>i j.
        if 0 \<le> i - dx \<and> i - dx < r_width imageData \<and> 0 \<le> j - dy \<and> j - dy < r_height imageData
        then stored_pixel browser (r_pixels imageData (i - dx) (j - dy))
        else r_pixels canvas i j)\<rparr>"

definition blank_canvas :: "int \<Rightarrow> int \<Rightarrow> raster" where
  "blank_canvas w h = \<lparr>r_width = w, r_height = h, r_pixels = (\<lambda>i j. transparent)\<rparr>"

definition getImageData ::
  "rasteriser \<Rightarrow> state \<Rightarrow> int \<Rightarrow> int \<Rightarrow> real \<Rightarrow> real \<Rightarrow> raster \<Rightarrow> rect \<Rightarrow> error + raster" where
  "getImageData browser st cw ch tx ty img ar =
     ctx_getImageData (drawImage browser st cw ch tx ty img)
       (rect_x ar) (rect_y ar) (rect_width ar) (rect_height ar)"

text \<open>The local \<^verbatim>\<open>transformedArea\<close> of \<^verbatim>\<open>getCroppedCanvas\<close>.\<close>

definition transformedArea :: "state \<Rightarrow> rect" where
  "transformedArea st =
     (let scale = tr_a (transform st); ar = area st
      in \<lparr>rect_x = Math_round (area_x ar / scale),
          rect_y = Math_round (area_y ar / scale),
          rect_width = Math_round (area_width ar / scale),
          rect_height = Math_round (area_height ar / scale)\<rparr>)"

definition getCroppedCanvas :: "rasteriser \<Rightarrow> state \<Rightarrow> raster \<Rightarrow> error + raster" where
  "getCroppedCanvas browser st img =
     (let scale = tr_a (transform st);
          tx = tr_e (transform st) / scale;
          ty = tr_f (transform st) / scale;
          cw = Math_round (of_int (canvasWidth st) / scale);
          ch = Math_round (of_int (canvasHeight st) / scale)
      in case getImageData browser st cw ch tx ty img (transformedArea st) of
           Inl err \<Rightarrow> Inl err
         | Inr imageData \<Rightarrow>
             Inr (ctx_putImageData browser
                    (blank_canvas (r_width imageData) (r_height imageData)) imageData 0 0))"

text \<open>
  \<^verbatim>\<open>getCanvasSlice\<close> returns a promise: an exception thrown in its executor rejects
  it (\<open>Inl\<close>); otherwise it resolves to the encoded canvas with its width and height. The
  blob is kept as its content type and the pixels it encodes.
\<close>

record canvasSlice =
  slice_file :: "string \<times> raster"
  slice_width :: int
  slice_height :: int

definition getCanvasSlice :: "rasteriser \<Rightarrow> state \<Rightarrow> raster \<Rightarrow> string \<Rightarrow> error + canvasSlice" where
  "getCanvasSlice browser st img mime =
     (case getCroppedCanvas browser st img of
        Inl err \<Rightarrow> Inl err
      | Inr croppedCanvas \<Rightarrow>
          Inr \<lparr>slice_file = (mime, croppedCanvas),
               slice_width = r_width croppedCanvas,
               slice_height = r_height croppedCanvas\<rparr>)"

section \<open>Concrete sessions\<close>

text \<open>
  The module's variables as its top level initialises them on a desktop browser, before
  any image is loaded.
\<close>

definition initial_state :: state where
  "initial_state =
     \<lparr>canvasWidth = 0, canvasHeight = 0, pointerPosition = None, eventToEnable = NoGesture,
      keepMask = False, selectionDisabled = False, snapArea = False, cutModeEnabled = False,
      handlingMove = False, isMobile = False,
      canvasImage_width = 0, canvasImage_height = 0, canvasImage_src = [],
      area = resetArea None, direction = [],
      transform = \<lparr>tr_a = 1, tr_b = 0, tr_c = 0, tr_d = 1, tr_e = 0, tr_f = 0\<rparr>,
      rotation = 0, flip = \<lparr>flipH = 1, flipV = 1\<rparr>,
      panelVisible = False, cropBtnVisible = False, cursor = [], userSelect = [],
      cutModeBtnText = ''Enable Cut Mode'',
      pointermoveListener = False, pointerupListener = False, changeCursorListener = False,
      raf = [], trace = [], uncaught = []\<rparr>"

text \<open>
  A session in an 800 by 600 viewport: a 400 by 300 image at scale 1 in the top left
  corner, and an Area of 200 by 100 pixels at \<open>(100, 100)\<close>.
\<close>

definition example_session :: state where
  "example_session =
     initial_state\<lparr>canvasWidth := 800, canvasHeight := 600,
                    canvasImage_width := 400, canvasImage_height := 300,
                    area := \<lparr>area_x = 100, area_y = 100, area_width = 200, area_height = 100\<rparr>\<rparr>"

text \<open>
  Stand-ins for the two functions of the area module that \<^verbatim>\<open>handlePointerdown\<close>
  calls: a pointer is inside the Area when it is within the rectangle's span, and a
  detector that finds no resize handle.
\<close>

definition inside_rectangle :: "area \<Rightarrow> real \<Rightarrow> real \<Rightarrow> bool" where
  "inside_rectangle ar px py =
     (min (area_x ar) (area_x ar + area_width ar) \<le> px \<and>
      px \<le> max (area_x ar) (area_x ar + area_width ar) \<and>
      min (area_y ar) (area_y ar + area_height ar) \<le> py \<and>
      py \<le> max (area_y ar) (area_y ar + area_height ar))"

definition no_handle :: "area \<Rightarrow> real \<Rightarrow> real \<Rightarrow> string" where
  "no_handle ar px py = []"

text \<open>A press of the right button with shift held, and a press of the left button with ctrl held.\<close>

definition right_click_with_shift :: pointer_event where
  "right_click_with_shift =
     \<lparr>which = 3, clientX = 10, clientY = 10, shiftKey = True, ctrlKey = False\<rparr>"

definition ctrl_press_inside :: pointer_event where
  "ctrl_press_inside =
     \<lparr>which = 1, clientX = 150, clientY = 160, shiftKey = False, ctrlKey = True\<rparr>"

text \<open>A selection gesture that has produced an Area of zero width and a height of 50.\<close>

definition line_session :: state where
  "line_session =
     example_session\<lparr>area := \<lparr>area_x = 10, area_y = 10, area_width = 0, area_height = 50\<rparr>,
                      eventToEnable := Select, keepMask := True\<rparr>"

text \<open>
  An Area of zero width and a height of 50, left by a selection gesture, with \<open>s\<close> as
  the last resize direction.
\<close>

definition line_south_session :: state where
  "line_south_session =
     example_session\<lparr>area := \<lparr>area_x = 10, area_y = 10, area_width = 0, area_height = 50\<rparr>,
                      direction := ''s''\<rparr>"


text \<open>
  The snap rule of one axis, for a rectangle of extent \<open>ext\<close> (its width or height,
  of either sign) that the pointer would put at \<open>pos\<close>, and an image that spans from
  \<open>lower\<close> to \<open>upper\<close> on the screen. The rectangle's lower edge is at \<open>pos\<close> when
  the extent is positive and at \<open>pos + ext\<close> when it is negative; \<open>v\<close> is the position
  the rectangle gets.
\<close>

definition snaps_to :: "real \<Rightarrow> real \<Rightarrow> real \<Rightarrow> real \<Rightarrow> real \<Rightarrow> bool" where
  "snaps_to pos ext lower upper v =
     (let lo = pos + min 0 ext; hi = pos + max 0 ext
      in (\<bar>lo - lower\<bar> < 8 \<longrightarrow> v + min 0 ext = lower) \<and>
         (8 \<le> \<bar>lo - lower\<bar> \<and> \<bar>hi - upper\<bar> < 8 \<longrightarrow> v + max 0 ext = upper) \<and>
         (8 \<le> \<bar>lo - lower\<bar> \<and> 8 \<le> \<bar>hi - upper\<bar> \<longrightarrow> v = pos))"

text \<open>A move gesture with snapping on, grabbed at the Area's origin.\<close>

definition snap_session :: state where
  "snap_session =
     example_session\<lparr>snapArea := True, eventToEnable := Move,
                      pointerPosition := Some \<lparr>point_x = 0, point_y = 0\<rparr>\<rparr>"

text \<open>A trace entry that is not a mutator call with a negative coordinate.\<close>

fun nonneg_call :: "effect \<Rightarrow> bool" where
  "nonneg_call (MutatorCall g px py) = (0 \<le> px \<and> 0 \<le> py)"
| "nonneg_call DrawCanvas = True"
| "nonneg_call DrawImage = True"
| "nonneg_call ResetCropPanelInputs = True"

text \<open>A selection gesture under way, started at \<open>(100, 100)\<close>.\<close>

definition select_session :: state where
  "select_session =
     example_session\<lparr>eventToEnable := Select, pointermoveListener := True,
                      pointerupListener := True\<rparr>"

text \<open>
  A rasteriser that paints nothing where the choice is its own, a red pixel, and an image
  that is red all over.
\<close>

definition blank_rasteriser :: rasteriser where
  "blank_rasteriser =
     \<lparr>resampled = (\<lambda>img radians fh fv tx ty i j. transparent),
      premultiplied = (\<lambda>p. transparent)\<rparr>"

definition opaque_red :: rgba where
  "opaque_red = (255, 0, 0, 255)"

definition red_image :: "int \<Rightarrow> int \<Rightarrow> raster" where
  "red_image w h = \<lparr>r_width = w, r_height = h, r_pixels = (\<lambda>i j. opaque_red)\<rparr>"

text \<open>An Area dragged backwards: from \<open>(160, 160)\<close> up and left to \<open>(100, 100)\<close>.\<close>

definition backwards_session :: state where
  "backwards_session =
     example_session\<lparr>area := \<lparr>area_x = 160, area_y = 160, area_width = - 60, area_height = - 60\<rparr>\<rparr>"

text \<open>
  A 1000 by 700 image at scale 1 in the 800 by 600 viewport, and an Area inside the image
  that extends past the right end of the viewport.
\<close>

definition large_session :: state where
  "large_session =
     example_session\<lparr>canvasImage_width := 1000, canvasImage_height := 700,
                      area := \<lparr>area_x = 700, area_y = 0, area_width = 200, area_height = 100\<rparr>\<rparr>"

section \<open>Resizing\<close>

lemma in_resize_directions:
  "d \<in> set resize_directions \<longleftrightarrow>
     d = ''n'' \<or> d = ''s'' \<or> d = ''w'' \<or> d = ''e'' \<or>
     d = ''nw'' \<or> d = ''ne'' \<or> d = ''sw'' \<or> d = ''se''"
  by (auto simp: resize_directions_def)

text \<open>
  C4. One resize step with the pointer at \<open>(px, py)\<close> changes nothing but the Area, and of
  the Area only what the direction implies. For \<open>n\<close> the height becomes
  \<open>y - py + height\<close> and \<open>y\<close> becomes \<open>py\<close>, so the edge at \<open>y\<close> is at the pointer and
  the opposite edge stays; for \<open>s\<close> the height becomes \<open>py - y\<close>, so the edge at
  \<open>y + height\<close> is at the pointer and \<open>y\<close> stays; without \<open>n\<close> and \<open>s\<close> neither \<open>y\<close> nor
  the height changes. The same holds for \<open>w\<close> and \<open>e\<close> on \<open>x\<close> and the width.
\<close>

theorem resizeArea_direction:
  assumes "direction st \<in> set resize_directions"
  shows "let d = direction st; ar = area st; ar' = area (resizeArea st px py) in
     resizeArea st px py = st\<lparr>area := ar'\<rparr> \<and>
     (CHR ''n'' \<in> set d \<longrightarrow>
        area_height ar' = area_y ar - py + area_height ar \<and> area_y ar' = py \<and>
        area_y ar' + area_height ar' = area_y ar + area_height ar) \<and>
     (CHR ''s'' \<in> set d \<longrightarrow>
        area_height ar' = py - area_y ar \<and> area_y ar' = area_y ar \<and>
        area_y ar' + area_height ar' = py) \<and>
     (CHR ''n'' \<notin> set d \<and> CHR ''s'' \<notin> set d \<longrightarrow>
        area_y ar' = area_y ar \<and> area_height ar' = area_height ar) \<and>
     (CHR ''w'' \<in> set d \<longrightarrow>
        area_width ar' = area_x ar - px + area_width ar \<and> area_x ar' = px \<and>
        area_x ar' + area_width ar' = area_x ar + area_width ar) \<and>
     (CHR ''e'' \<in> set d \<longrightarrow>
        area_width ar' = px - area_x ar \<and> area_x ar' = area_x ar \<and>
        area_x ar' + area_width ar' = px) \<and>
     (CHR ''w'' \<notin> set d \<and> CHR ''e'' \<notin> set d \<longrightarrow>
        area_x ar' = area_x ar \<and> area_width ar' = area_width ar)"
  using assms unfolding in_resize_directions
  by (elim disjE) (simp_all add: resizeArea_def first_char_is_def str_includes_def Let_def)

theorem resizeArea_direction_witness:
  "direction (example_session\<lparr>direction := ''ne''\<rparr>) \<in> set resize_directions \<and>
   area (resizeArea (example_session\<lparr>direction := ''ne''\<rparr>) 350 80) =
     \<lparr>area_x = 100, area_y = 80, area_width = 250, area_height = 120\<rparr>"
  using resizeArea_direction [of "example_session\<lparr>direction := ''ne''\<rparr>" 350 80]
  by (simp add: in_resize_directions example_session_def initial_state_def Let_def)

section \<open>Double click: extending an edge to the image\<close>

lemma handleDoubleClick_drawn:
  assumes "areaDrawn (area st)" and "direction st \<in> set resize_directions"
  shows "let d = direction st; ar = area st; ar' = area (handleDoubleClick st);
          top = tr_f (transform st);
          bottom = tr_f (transform st) + of_int (canvasImage_height st) * tr_a (transform st);
          left = tr_e (transform st);
          right = tr_e (transform st) + of_int (canvasImage_width st) * tr_a (transform st)
      in handleDoubleClick st = st\<lparr>area := ar', raf := raf st @ [DrawCanvasCb]\<rparr> \<and>
         (CHR ''n'' \<in> set d \<longrightarrow>
            area_y ar' = (if area_height ar > 0 then top else bottom) \<and>
            area_y ar' + area_height ar' = area_y ar + area_height ar) \<and>
         (CHR ''s'' \<in> set d \<longrightarrow>
            area_y ar' + area_height ar' = (if area_height ar > 0 then bottom else top) \<and>
            area_y ar' = area_y ar) \<and>
         (CHR ''n'' \<notin> set d \<and> CHR ''s'' \<notin> set d \<longrightarrow>
            area_y ar' = area_y ar \<and> area_height ar' = area_height ar) \<and>
         (CHR ''w'' \<in> set d \<longrightarrow>
            area_x ar' = (if area_width ar > 0 then left else right) \<and>
            area_x ar' + area_width ar' = area_x ar + area_width ar) \<and>
         (CHR ''e'' \<in> set d \<longrightarrow>
            area_x ar' + area_width ar' = (if area_width ar > 0 then right else left) \<and>
            area_x ar' = area_x ar) \<and>
         (CHR ''w'' \<notin> set d \<and> CHR ''e'' \<notin> set d \<longrightarrow>
            area_x ar' = area_x ar \<and> area_width ar' = area_width ar)"
  using assms(2) assms(1) unfolding in_resize_directions
  by (elim disjE)
     (simp_all add: handleDoubleClick_def str_includes_def Let_def requestAnimationFrame_def)

text \<open>
  C9, as the code has it. With an Area of non-zero width and height and a resize
  direction, a double click
  changes only the Area (and requests a redraw), and puts the edge the direction names
  exactly on a boundary of the transformed image: the boundaries are \<open>f\<close> and
  \<open>f + height * scale\<close> vertically, \<open>e\<close> and \<open>e + width * scale\<close> horizontally. \<open>n\<close> and
  \<open>w\<close> name the edge at \<open>y\<close> and at \<open>x\<close>, \<open>s\<close> and \<open>e\<close> the edge at \<open>y + height\<close> and
  at \<open>x + width\<close>; an edge of a rectangle of positive extent goes to the boundary on its
  own side, an edge of a rectangle of negative extent to the mirrored one, and the opposite
  edge stays where it is. When the width or the height of the Area is zero, also when
  only one of them is, the double click changes nothing.
\<close>

theorem handleDoubleClick_edge_snap:
  "(\<not> areaDrawn (area st) \<longrightarrow> handleDoubleClick st = st) \<and>
   (areaDrawn (area st) \<and> direction st \<in> set resize_directions \<longrightarrow>
     (let d = direction st; ar = area st; ar' = area (handleDoubleClick st);
          top = tr_f (transform st);
          bottom = tr_f (transform st) + of_int (canvasImage_height st) * tr_a (transform st);
          left = tr_e (transform st);
          right = tr_e (transform st) + of_int (canvasImage_width st) * tr_a (transform st)
      in handleDoubleClick st = st\<lparr>area := ar', raf := raf st @ [DrawCanvasCb]\<rparr> \<and>
         (CHR ''n'' \<in> set d \<longrightarrow>
            area_y ar' = (if area_height ar > 0 then top else bottom) \<and>
            area_y ar' + area_height ar' = area_y ar + area_height ar) \<and>
         (CHR ''s'' \<in> set d \<longrightarrow>
            area_y ar' + area_height ar' = (if area_height ar > 0 then bottom else top) \<and>
            area_y ar' = area_y ar) \<and>
         (CHR ''n'' \<notin> set d \<and> CHR ''s'' \<notin> set d \<longrightarrow>
            area_y ar' = area_y ar \<and> area_height ar' = area_height ar) \<and>
         (CHR ''w'' \<in> set d \<longrightarrow>
            area_x ar' = (if area_width ar > 0 then left else right) \<and>
            area_x ar' + area_width ar' = area_x ar + area_width ar) \<and>
         (CHR ''e'' \<in> set d \<longrightarrow>
            area_x ar' + area_width ar' = (if area_width ar > 0 then right else left) \<and>
            area_x ar' = area_x ar) \<and>
         (CHR ''w'' \<notin> set d \<and> CHR ''e'' \<notin> set d \<longrightarrow>
            area_x ar' = area_x ar \<and> area_width ar' = area_width ar)))"
proof (cases "areaDrawn (area st)")
  case True
  with handleDoubleClick_drawn [of st] show ?thesis
    by blast
next
  case False
  then show ?thesis
    by (simp add: handleDoubleClick_def)
qed

theorem handleDoubleClick_edge_snap_witness:
  "areaDrawn (area (example_session\<lparr>direction := ''se''\<rparr>)) \<and>
   direction (example_session\<lparr>direction := ''se''\<rparr>) \<in> set resize_directions \<and>
   area (handleDoubleClick (example_session\<lparr>direction := ''se''\<rparr>)) =
     \<lparr>area_x = 100, area_y = 100, area_width = 300, area_height = 200\<rparr> \<and>
   handleDoubleClick initial_state = initial_state"
  using handleDoubleClick_edge_snap [of "example_session\<lparr>direction := ''se''\<rparr>"]
        handleDoubleClick_edge_snap [of initial_state]
  by (simp add: in_resize_directions example_session_def initial_state_def Let_def
        areaDrawn_def resetArea_def)

text \<open>
  The Area is not empty, its height is 50, and the direction is \<open>s\<close>; but its width is
  zero, and the double click leaves the edge at 60 where the image ends at 300.
\<close>

theorem handleDoubleClick_line_counterexample:
  "\<not> (area_width (area line_south_session) = 0 \<and> area_height (area line_south_session) = 0) \<and>
   direction line_south_session = ''s'' \<and>
   handleDoubleClick line_south_session = line_south_session \<and>
   area_y (area (handleDoubleClick line_south_session))
     + area_height (area (handleDoubleClick line_south_session)) = 60 \<and>
   tr_f (transform line_south_session)
     + of_int (canvasImage_height line_south_session) * tr_a (transform line_south_session) = 300"
  by (simp add: handleDoubleClick_def areaDrawn_def line_south_session_def example_session_def
        initial_state_def)

section \<open>Pointer down: classifying the gesture\<close>

text \<open>
  C5, as the code has it. A pointer-down of another button than the primary one, or while
  the modal panel is visible, is ignored. Otherwise: in cut mode the gesture is
  \<open>resize\<close> at once, and neither the Area nor its direction is touched; out of cut mode
  the gesture is \<open>drag\<close> when shift is held or selection is disabled; else \<open>move\<close> when
  ctrl is held (or on a mobile device), the Area has non-zero width and height and the
  pointer is inside it; else \<open>resize\<close> when a resize direction is detected and the Area
  has non-zero width and height; else \<open>select\<close>, with a fresh Area of zero size at the
  pointer.
\<close>

theorem handlePointerdown_classification:
  "(which ev \<noteq> 1 \<or> panelVisible st \<longrightarrow> handlePointerdown setDirection isInsideArea st ev = st) \<and>
   (which ev = 1 \<and> \<not> panelVisible st \<longrightarrow>
     (let st' = handlePointerdown setDirection isInsideArea st ev;
          px = clientX ev; py = clientY ev;
          drawn = areaDrawn (area st);
          dir = setDirection (area st) px py
      in (cutModeEnabled st \<longrightarrow>
            eventToEnable st' = Resize \<and> area st' = area st \<and> direction st' = direction st) \<and>
         (\<not> cutModeEnabled st \<longrightarrow>
            eventToEnable st' =
              (if shiftKey ev \<or> selectionDisabled st then Drag
               else if (ctrlKey ev \<or> isMobile st) \<and> drawn \<and> isInsideArea (area st) px py then Move
               else if dir \<noteq> [] \<and> drawn then Resize
               else Select) \<and>
            area st' =
              (if eventToEnable st' = Select
               then \<lparr>area_x = px, area_y = py, area_width = 0, area_height = 0\<rparr>
               else area st))))"
  by (auto simp: handlePointerdown_def Let_def requestAnimationFrame_def resetArea_def)

theorem handlePointerdown_classification_witness:
  "which ctrl_press_inside = 1 \<and> \<not> panelVisible example_session \<and>
   \<not> cutModeEnabled example_session \<and>
   eventToEnable (handlePointerdown no_handle inside_rectangle example_session ctrl_press_inside) = Move \<and>
   handlePointerdown no_handle inside_rectangle (example_session\<lparr>panelVisible := True\<rparr>) ctrl_press_inside
     = example_session\<lparr>panelVisible := True\<rparr>"
  using handlePointerdown_classification
          [of ctrl_press_inside example_session no_handle inside_rectangle]
        handlePointerdown_classification
          [of ctrl_press_inside "example_session\<lparr>panelVisible := True\<rparr>" no_handle inside_rectangle]
  by (simp add: ctrl_press_inside_def example_session_def initial_state_def Let_def
        areaDrawn_def inside_rectangle_def)

text \<open>
  The panel is not visible and shift is held, but the button is the right one: no gesture
  starts.
\<close>

theorem handlePointerdown_button_counterexample:
  "\<not> panelVisible example_session \<and> shiftKey right_click_with_shift \<and>
   eventToEnable (handlePointerdown no_handle inside_rectangle example_session right_click_with_shift)
     = NoGesture"
  by (simp add: handlePointerdown_def right_click_with_shift_def example_session_def
        initial_state_def)

section \<open>Pointer up\<close>

text \<open>
  C8, as the code has it. Pointer-up ends the gesture and leaves the Area as it is. When
  both the width and the height of the Area are non-zero, the crop button is shown and
  cursor feedback starts, and nothing is painted. When the width or the height is zero,
  the mask is dropped (\<^verbatim>\<open>keepMask\<close> is cleared and the image is repainted without
  overlay), the cursor is reset and the crop panel is told to reset its inputs; the crop
  button and the cursor feedback stay as they were.
\<close>

theorem handlePointerup_outcome:
  "let st' = handlePointerup st in
     eventToEnable st' = NoGesture \<and> area st' = area st \<and>
     \<not> pointermoveListener st' \<and> \<not> pointerupListener st' \<and>
     (if area_width (area st) \<noteq> 0 \<and> area_height (area st) \<noteq> 0
      then cropBtnVisible st' \<and> changeCursorListener st' \<and>
           trace st' = trace st \<and> keepMask st' = keepMask st \<and> cursor st' = cursor st
      else keepMask st' = False \<and> cursor st' = ''default'' \<and>
           trace st' = trace st @ [DrawImage, ResetCropPanelInputs] \<and>
           cropBtnVisible st' = cropBtnVisible st \<and>
           changeCursorListener st' = changeCursorListener st)"
  by (simp add: handlePointerup_def Let_def areaDrawn_def allowCropAreaModification_def
        setCanvasCursor_def)

theorem handlePointerup_outcome_witness:
  "cropBtnVisible (handlePointerup example_session) \<and>
   changeCursorListener (handlePointerup example_session) \<and>
   trace (handlePointerup example_session) = []"
  using handlePointerup_outcome [of example_session]
  by (simp add: example_session_def initial_state_def Let_def)

text \<open>
  An Area of zero width and height 50 is not empty in the sense of "both zero", yet
  pointer-up treats it as no selection.
\<close>

theorem handlePointerup_line_counterexample:
  "area_width (area line_session) = 0 \<and> area_height (area line_session) = 50 \<and>
   \<not> cropBtnVisible (handlePointerup line_session) \<and>
   \<not> changeCursorListener (handlePointerup line_session) \<and>
   \<not> keepMask (handlePointerup line_session) \<and>
   trace (handlePointerup line_session) = [DrawImage, ResetCropPanelInputs]"
  by (simp add: handlePointerup_def line_session_def example_session_def initial_state_def
        Let_def areaDrawn_def setCanvasCursor_def)

section \<open>Loading an image: what is reset\<close>





section \<open>Moving with snap to the image bounds\<close>

lemma snap_rule_pos:
  fixes diff ext offset sd :: real
  assumes "0 < ext"
  shows "snaps_to diff ext offset (offset + sd)
           (if offset + 8 > diff \<and> offset - 8 < diff then offset
            else if offset + 8 + sd > diff + ext \<and> offset - 8 + sd < diff + ext
            then offset + sd - ext
            else diff)"
proof -
  have m: "min 0 ext = 0" "max 0 ext = ext"
    using assms by simp_all
  show ?thesis
    unfolding snaps_to_def Let_def m
    by (intro conjI impI; simp split: if_splits; linarith?)
qed

lemma snap_rule_neg:
  fixes diff ext offset sd :: real
  assumes "\<not> 0 < ext"
  shows "snaps_to diff ext offset (offset + sd)
           (if offset + 8 > diff + ext \<and> offset - 8 < diff + ext then offset - ext
            else if offset + 8 + sd > diff \<and> offset - 8 + sd < diff
            then offset + sd
            else diff)"
proof -
  have m: "min 0 ext = ext" "max 0 ext = 0"
    using assms by simp_all
  show ?thesis
    unfolding snaps_to_def Let_def m
    by (intro conjI impI; simp split: if_splits; linarith?)
qed

lemma if_Inr: "(if c then Inr v else Inr w) = Inr (if c then v else w)"
  by simp

lemma if_set_point:
  "(if c then st\<lparr>area := area_set_point ar pn v\<rparr> else st\<lparr>area := area_set_point ar pn w\<rparr>)
     = st\<lparr>area := area_set_point ar pn (if c then v else w)\<rparr>"
  by simp

lemma updatePoint_snaps:
  assumes "pointerPosition st = Some pp"
  shows "\<exists>v. updatePoint st pt pn dn offset scale = Inr (st\<lparr>area := area_set_point (area st) pn v\<rparr>) \<and>
             snaps_to (pt - point_get pp pn) (area_dimension (area st) dn) offset
               (offset + canvasImage_dimension st dn * scale) v"
proof (cases "0 < area_dimension (area st) dn")
  case True
  have "updatePoint st pt pn dn offset scale =
      Inr (st\<lparr>area := area_set_point (area st) pn
        (if offset + 8 > pt - point_get pp pn \<and> offset - 8 < pt - point_get pp pn then offset
         else if offset + 8 + canvasImage_dimension st dn * scale
                   > pt - point_get pp pn + area_dimension (area st) dn
               \<and> offset - 8 + canvasImage_dimension st dn * scale
                   < pt - point_get pp pn + area_dimension (area st) dn
         then offset + canvasImage_dimension st dn * scale - area_dimension (area st) dn
         else pt - point_get pp pn)\<rparr>)"
    unfolding updatePoint_def Let_def
    by (simp only: assms True option.case if_True if_Inr if_set_point)
  with snap_rule_pos [OF True] show ?thesis
    by blast
next
  case False
  have "updatePoint st pt pn dn offset scale =
      Inr (st\<lparr>area := area_set_point (area st) pn
        (if offset + 8 > pt - point_get pp pn + area_dimension (area st) dn
             \<and> offset - 8 < pt - point_get pp pn + area_dimension (area st) dn
         then offset - area_dimension (area st) dn
         else if offset + 8 + canvasImage_dimension st dn * scale > pt - point_get pp pn
               \<and> offset - 8 + canvasImage_dimension st dn * scale < pt - point_get pp pn
         then offset + canvasImage_dimension st dn * scale
         else pt - point_get pp pn)\<rparr>)"
    unfolding updatePoint_def Let_def
    by (simp only: assms False option.case if_False if_Inr if_set_point)
  with snap_rule_neg [OF False] show ?thesis
    by blast
qed

lemma updatePoint_x:
  assumes "pointerPosition st = Some pp"
  shows "\<exists>v. updatePoint st px PointX DimWidth offset scale = Inr (st\<lparr>area := (area st)\<lparr>area_x := v\<rparr>\<rparr>) \<and>
             snaps_to (px - point_x pp) (area_width (area st)) offset
               (offset + of_int (canvasImage_width st) * scale) v"
  using updatePoint_snaps [OF assms, of px PointX DimWidth offset scale]
  by simp

lemma updatePoint_y:
  assumes "pointerPosition st = Some pp"
  shows "\<exists>v. updatePoint st py PointY DimHeight offset scale = Inr (st\<lparr>area := (area st)\<lparr>area_y := v\<rparr>\<rparr>) \<and>
             snaps_to (py - point_y pp) (area_height (area st)) offset
               (offset + of_int (canvasImage_height st) * scale) v"
  using updatePoint_snaps [OF assms, of py PointY DimHeight offset scale]
  by simp

lemma moveArea_snapped:
  assumes "snapArea st" and "pointerPosition st = Some pp"
  shows "\<exists>nx ny.
           moveArea st px py = Inr (st\<lparr>area := (area st)\<lparr>area_x := nx, area_y := ny\<rparr>\<rparr>) \<and>
           snaps_to (px - point_x pp) (area_width (area st)) (tr_e (transform st))
             (tr_e (transform st) + of_int (canvasImage_width st) * tr_a (transform st)) nx \<and>
           snaps_to (py - point_y pp) (area_height (area st)) (tr_f (transform st))
             (tr_f (transform st) + of_int (canvasImage_height st) * tr_a (transform st)) ny"
proof -
  let ?t = "transform st"
  from updatePoint_x [OF assms(2)]
  obtain nx where x1: "updatePoint st px PointX DimWidth (tr_e ?t) (tr_a ?t)
        = Inr (st\<lparr>area := (area st)\<lparr>area_x := nx\<rparr>\<rparr>)"
    and x2: "snaps_to (px - point_x pp) (area_width (area st)) (tr_e ?t)
        (tr_e ?t + of_int (canvasImage_width st) * tr_a ?t) nx"
    by blast
  let ?st1 = "st\<lparr>area := (area st)\<lparr>area_x := nx\<rparr>\<rparr>"
  have pp1: "pointerPosition ?st1 = Some pp"
    using assms(2) by simp
  from updatePoint_y [OF pp1]
  obtain ny where y1: "updatePoint ?st1 py PointY DimHeight (tr_f ?t) (tr_a ?t)
        = Inr (?st1\<lparr>area := (area ?st1)\<lparr>area_y := ny\<rparr>\<rparr>)"
    and y2: "snaps_to (py - point_y pp) (area_height (area ?st1)) (tr_f ?t)
        (tr_f ?t + of_int (canvasImage_height ?st1) * tr_a ?t) ny"
    by blast
  have "moveArea st px py = Inr (st\<lparr>area := (area st)\<lparr>area_x := nx, area_y := ny\<rparr>\<rparr>)"
    using assms(1) x1 y1 by (simp add: moveArea_def Let_def)
  moreover from y2 have "snaps_to (py - point_y pp) (area_height (area st)) (tr_f ?t)
        (tr_f ?t + of_int (canvasImage_height st) * tr_a ?t) ny"
    by simp
  ultimately show ?thesis
    using x2 by blast
qed

text \<open>
  C3, as the code has it. With snapping on, a move step succeeds, changes nothing but the
  position of the Area, and treats each axis on its own, by the same rule. With the
  rectangle at the computed position (pointer minus grab offset): when its lower edge is
  less than 8 pixels from the lower boundary of the transformed image, that edge is put
  exactly on the boundary; else, when its upper edge is less than 8 pixels from the upper
  boundary, that edge is put exactly on the boundary; else (both distances 8 pixels or
  more) the computed position is used unchanged. Lower and upper edge are taken by
  position, so the rule is the same for positive and for negative width and height.
\<close>

theorem moveArea_snap:
  assumes "snapArea st" and "pointerPosition st = Some pp"
  shows "\<exists>nx ny.
           moveArea st px py = Inr (st\<lparr>area := (area st)\<lparr>area_x := nx, area_y := ny\<rparr>\<rparr>) \<and>
           snaps_to (px - point_x pp) (area_width (area st)) (tr_e (transform st))
             (tr_e (transform st) + of_int (canvasImage_width st) * tr_a (transform st)) nx \<and>
           snaps_to (py - point_y pp) (area_height (area st)) (tr_f (transform st))
             (tr_f (transform st) + of_int (canvasImage_height st) * tr_a (transform st)) ny"
  using assms by (rule moveArea_snapped)

theorem moveArea_snap_witness:
  "snapArea snap_session \<and> pointerPosition snap_session = Some \<lparr>point_x = 0, point_y = 0\<rparr> \<and>
   moveArea snap_session 7 50 =
     Inr (snap_session\<lparr>area := \<lparr>area_x = 0, area_y = 50, area_width = 200, area_height = 100\<rparr>\<rparr>) \<and>
   snaps_to 7 200 0 400 0 \<and> snaps_to 50 100 0 300 50"
  using moveArea_snap [of snap_session "\<lparr>point_x = 0, point_y = 0\<rparr>" 7 50]
  by (simp add: snap_session_def example_session_def initial_state_def moveArea_def
        updatePoint_def Let_def snaps_to_def)

text \<open>
  At a distance of exactly 8 pixels from the left boundary the Area is not snapped.
\<close>

theorem moveArea_snap_at_8_counterexample:
  "snapArea snap_session \<and>
   \<bar>(8 - 0) - tr_e (transform snap_session)\<bar> \<le> 8 \<and>
   moveArea snap_session 8 50 =
     Inr (snap_session\<lparr>area := \<lparr>area_x = 8, area_y = 50, area_width = 200, area_height = 100\<rparr>\<rparr>)"
  by (simp add: snap_session_def example_session_def initial_state_def moveArea_def
        updatePoint_def Let_def)

section \<open>Pointer move: clamping, dispatch and redraw\<close>

lemma updatePoint_only_area:
  assumes "updatePoint st pt pn dn offset scale = Inr st'"
  shows "st' = st\<lparr>area := area st'\<rparr>"
proof (cases "pointerPosition st")
  case None
  with assms show ?thesis
    by (simp add: updatePoint_def)
next
  case (Some pp)
  from updatePoint_snaps [OF Some, of pt pn dn offset scale] assms
  obtain v where "st' = st\<lparr>area := area_set_point (area st) pn v\<rparr>"
    by auto
  then show ?thesis
    by simp
qed

lemma moveArea_only_area:
  assumes "moveArea st px py = Inr st'"
  shows "st' = st\<lparr>area := area st'\<rparr>"
proof (cases "snapArea st")
  case True
  with assms obtain st1 where
    one: "updatePoint st px PointX DimWidth (tr_e (transform st)) (tr_a (transform st)) = Inr st1"
    and two: "updatePoint st1 py PointY DimHeight (tr_f (transform st)) (tr_a (transform st)) = Inr st'"
    by (auto simp: moveArea_def Let_def split: sum.splits)
  from updatePoint_only_area [OF one] updatePoint_only_area [OF two]
  have "st1 = st\<lparr>area := area st1\<rparr>" and "st' = st1\<lparr>area := area st'\<rparr>"
    by simp_all
  then have "st' = (st\<lparr>area := area st1\<rparr>)\<lparr>area := area st'\<rparr>"
    by simp
  then show ?thesis
    by simp
next
  case False
  with assms show ?thesis
    by (auto simp: moveArea_def split: option.splits)
qed

lemma moveArea_returns:
  assumes "pointerPosition st = Some pp"
  shows "\<exists>st'. moveArea st px py = Inr st'"
proof (cases "snapArea st")
  case True
  let ?t = "transform st"
  from updatePoint_x [OF assms, of px "tr_e ?t" "tr_a ?t"]
  obtain nx where x1: "updatePoint st px PointX DimWidth (tr_e ?t) (tr_a ?t)
        = Inr (st\<lparr>area := (area st)\<lparr>area_x := nx\<rparr>\<rparr>)"
    by blast
  have "pointerPosition (st\<lparr>area := (area st)\<lparr>area_x := nx\<rparr>\<rparr>) = Some pp"
    using assms by simp
  from updatePoint_y [OF this, of py "tr_f ?t" "tr_a ?t"]
  obtain st' where "updatePoint (st\<lparr>area := (area st)\<lparr>area_x := nx\<rparr>\<rparr>) py PointY DimHeight
      (tr_f ?t) (tr_a ?t) = Inr st'"
    by blast
  with x1 True show ?thesis
    by (simp add: moveArea_def Let_def)
next
  case False
  with assms show ?thesis
    by (simp add: moveArea_def)
qed

lemma call_mutator_frame:
  assumes "call_mutator st px py = Inr st'"
  shows "trace st' = trace st \<and> raf st' = raf st \<and> handlingMove st' = handlingMove st"
proof (cases "eventToEnable st")
  case Move
  with assms have "moveArea st px py = Inr st'"
    by (simp add: call_mutator_def)
  from moveArea_only_area [OF this] obtain a where "st' = st\<lparr>area := a\<rparr>"
    by blast
  then show ?thesis
    by simp
qed (use assms in \<open>auto simp: call_mutator_def selectArea_def resizeArea_def dragImage_def
       Let_def split: option.splits\<close>)

lemma call_mutator_returns:
  assumes "eventToEnable st = Move \<longrightarrow> pointerPosition st \<noteq> None"
  shows "\<exists>st'. call_mutator st px py = Inr st'"
proof (cases "eventToEnable st")
  case Move
  with assms obtain pp where "pointerPosition st = Some pp"
    by auto
  from moveArea_returns [OF this] Move show ?thesis
    by (simp add: call_mutator_def)
qed (simp_all add: call_mutator_def)

lemma clamp_is_max: "(if (0::real) < c then c else 0) = max 0 c"
  by simp

lemma handlePointermove_busy: "handlingMove st \<Longrightarrow> handlePointermove st cx cy = st"
  by (simp add: handlePointermove_def)

lemma handlePointermove_trace:
  "\<exists>ys. trace (handlePointermove st cx cy) = trace st @ ys \<and> list_all nonneg_call ys"
proof (cases "handlingMove st")
  case True
  then show ?thesis
    by (simp add: handlePointermove_busy)
next
  case False
  let ?px = "if cx > 0 then cx else 0" and ?py = "if cy > 0 then cy else 0"
  let ?st2 = "log_mutator_call (st\<lparr>handlingMove := True\<rparr>) ?px ?py"
  have logged: "\<exists>ys. trace ?st2 = trace st @ ys \<and> list_all nonneg_call ys"
    by (simp add: log_mutator_call_def)
  show ?thesis
  proof (cases "call_mutator ?st2 ?px ?py")
    case (Inl err)
    with False have "trace (handlePointermove st cx cy) = trace ?st2"
      by (simp add: handlePointermove_def Let_def)
    with logged show ?thesis
      by simp
  next
    case (Inr st3)
    with False have "trace (handlePointermove st cx cy) = trace st3"
      by (simp add: handlePointermove_def Let_def requestAnimationFrame_def)
    with call_mutator_frame [OF Inr] logged show ?thesis
      by simp
  qed
qed

lemma pointermoveBurst_Cons:
  "pointermoveBurst st ((cx, cy) # rest) = pointermoveBurst (handlePointermove st cx cy) rest"
  by (simp add: pointermoveBurst_def)

lemma pointermoveBurst_trace:
  "\<exists>ys. trace (pointermoveBurst st moves) = trace st @ ys \<and> list_all nonneg_call ys"
proof (induction moves arbitrary: st)
  case Nil
  then show ?case
    by (simp add: pointermoveBurst_def)
next
  case (Cons m moves)
  obtain cx cy where m: "m = (cx, cy)"
    by (cases m)
  from handlePointermove_trace [of st cx cy]
  obtain ys where ys: "trace (handlePointermove st cx cy) = trace st @ ys" "list_all nonneg_call ys"
    by blast
  from Cons.IH [of "handlePointermove st cx cy"]
  obtain zs where zs: "trace (pointermoveBurst (handlePointermove st cx cy) moves)
      = trace (handlePointermove st cx cy) @ zs" "list_all nonneg_call zs"
    by blast
  have "trace (pointermoveBurst st (m # moves)) = trace st @ (ys @ zs)"
    using ys zs m by (simp add: pointermoveBurst_Cons)
  moreover have "list_all nonneg_call (ys @ zs)"
    using ys zs by simp
  ultimately show ?case
    by blast
qed

lemma handlePointermove_first:
  assumes "\<not> handlingMove st" and "eventToEnable st = Move \<longrightarrow> pointerPosition st \<noteq> None"
  shows "handlingMove (handlePointermove st cx cy) \<and>
         raf (handlePointermove st cx cy) = raf st @ [MoveDoneCb] \<and>
         trace (handlePointermove st cx cy) =
           trace st @ (if eventToEnable st = NoGesture then []
                       else [MutatorCall (eventToEnable st) (max 0 cx) (max 0 cy)])"
proof -
  let ?st2 = "log_mutator_call (st\<lparr>handlingMove := True\<rparr>) (max 0 cx) (max 0 cy)"
  have st2: "handlingMove ?st2" "raf ?st2 = raf st" "eventToEnable ?st2 = eventToEnable st"
    "pointerPosition ?st2 = pointerPosition st"
    "trace ?st2 = trace st @ (if eventToEnable st = NoGesture then []
                       else [MutatorCall (eventToEnable st) (max 0 cx) (max 0 cy)])"
    by (simp_all add: log_mutator_call_def)
  with assms(2) have "eventToEnable ?st2 = Move \<longrightarrow> pointerPosition ?st2 \<noteq> None"
    by simp
  from call_mutator_returns [OF this, of "max 0 cx" "max 0 cy"]
  obtain st3 where st3: "call_mutator ?st2 (max 0 cx) (max 0 cy) = Inr st3"
    by blast
  with assms(1) have "handlePointermove st cx cy = requestAnimationFrame MoveDoneCb st3"
    by (simp add: handlePointermove_def Let_def clamp_is_max)
  with call_mutator_frame [OF st3] st2 show ?thesis
    by (simp add: requestAnimationFrame_def)
qed

lemma pointermoveBurst_busy: "handlingMove st \<Longrightarrow> pointermoveBurst st moves = st"
  by (induction moves) (auto simp: pointermoveBurst_def handlePointermove_busy)

lemma fold_run_callback:
  "trace (fold run_callback cbs st) = trace st @ replicate (length cbs) DrawCanvas \<and>
   raf (fold run_callback cbs st) = raf st"
proof (induction cbs arbitrary: st)
  case Nil
  then show ?case by simp
next
  case (Cons cb cbs)
  show ?case
    by (cases cb) (simp_all add: Cons.IH drawCanvas_def replicate_app_Cons_same)
qed

lemma fold_run_callback_done:
  "handlingMove (fold run_callback (cbs @ [MoveDoneCb]) st) = False"
  by simp

text \<open>
  C6, as the code has it. While no move is in flight (and the mutator does not throw), of
  a burst of pointer-move events within one animation frame only the first is handled:
  its coordinates, clamped, go to the mutator of the active gesture, and one redraw is
  requested. The other events of the burst are dropped: they reach no mutator and request
  nothing, so the state before the frame is the state after the first event. The frame
  then runs \<^verbatim>\<open>drawCanvas\<close> once for the burst (and once for each redraw that was
  already requested before the burst), and clears the in-flight flag.
\<close>

theorem pointermoveBurst_one_redraw:
  assumes "\<not> handlingMove st" and "eventToEnable st = Move \<longrightarrow> pointerPosition st \<noteq> None"
  shows "let burst = pointermoveBurst st ((cx, cy) # rest);
             st' = animationFrame burst
         in burst = handlePointermove st cx cy \<and>
            trace st' =
              trace st @ (if eventToEnable st = NoGesture then []
                          else [MutatorCall (eventToEnable st) (max 0 cx) (max 0 cy)])
                       @ replicate (length (raf st) + 1) DrawCanvas \<and>
            \<not> handlingMove st' \<and> raf st' = []"
proof -
  let ?first = "handlePointermove st cx cy"
  from handlePointermove_first [OF assms, of cx cy]
  have busy: "handlingMove ?first" and q: "raf ?first = raf st @ [MoveDoneCb]"
    and tr: "trace ?first = trace st @ (if eventToEnable st = NoGesture then []
                       else [MutatorCall (eventToEnable st) (max 0 cx) (max 0 cy)])"
    by simp_all
  have burst: "pointermoveBurst st ((cx, cy) # rest) = ?first"
    using busy by (simp add: pointermoveBurst_Cons pointermoveBurst_busy)
  have "trace (animationFrame ?first) = trace ?first @ replicate (length (raf st) + 1) DrawCanvas"
    and "raf (animationFrame ?first) = []"
    and "\<not> handlingMove (animationFrame ?first)"
    unfolding animationFrame_def q
    by (simp_all add: fold_run_callback fold_run_callback_done del: fold_append)
  with burst tr show ?thesis
    by (simp add: Let_def)
qed

theorem pointermoveBurst_one_redraw_witness:
  "(\<not> handlingMove select_session \<and>
    trace (animationFrame (pointermoveBurst select_session [(110, 120), (130, 140), (150, 160)]))
      = [MutatorCall Select 110 120, DrawCanvas] \<and>
    area (animationFrame (pointermoveBurst select_session [(110, 120), (130, 140), (150, 160)]))
      = \<lparr>area_x = 100, area_y = 100, area_width = 10, area_height = 20\<rparr>) \<and>
   (\<not> handlingMove snap_session \<and> eventToEnable snap_session = Move \<and>
    pointerPosition snap_session \<noteq> None \<and>
    trace (animationFrame (pointermoveBurst snap_session [(7, 50), (300, 200)]))
      = [MutatorCall Move 7 50, DrawCanvas])"
proof (rule conjI)
  show "\<not> handlingMove select_session \<and>
    trace (animationFrame (pointermoveBurst select_session [(110, 120), (130, 140), (150, 160)]))
      = [MutatorCall Select 110 120, DrawCanvas] \<and>
    area (animationFrame (pointermoveBurst select_session [(110, 120), (130, 140), (150, 160)]))
      = \<lparr>area_x = 100, area_y = 100, area_width = 10, area_height = 20\<rparr>"
    using pointermoveBurst_one_redraw [of select_session 110 120 "[(130, 140), (150, 160)]"]
    by (simp add: select_session_def example_session_def initial_state_def
          Let_def pointermoveBurst_def handlePointermove_def log_mutator_call_def
          call_mutator_def selectArea_def requestAnimationFrame_def animationFrame_def
          drawCanvas_def)
next
  show "\<not> handlingMove snap_session \<and> eventToEnable snap_session = Move \<and>
    pointerPosition snap_session \<noteq> None \<and>
    trace (animationFrame (pointermoveBurst snap_session [(7, 50), (300, 200)]))
      = [MutatorCall Move 7 50, DrawCanvas]"
  proof -
    have idle: "\<not> handlingMove snap_session"
      and grabbed: "eventToEnable snap_session = Move \<longrightarrow> pointerPosition snap_session \<noteq> None"
      and fields: "eventToEnable snap_session = Move" "pointerPosition snap_session \<noteq> None"
        "trace snap_session = []" "raf snap_session = []"
      by (simp_all add: snap_session_def example_session_def initial_state_def)
    note burst = pointermoveBurst_one_redraw [OF idle grabbed, of 7 50 "[(300, 200)]",
        unfolded Let_def, THEN conjunct2, THEN conjunct1]
    from burst idle fields show ?thesis
      by simp
  qed
qed

text \<open>
  Two pointer-move events in one frame of a selection gesture: the second never reaches
  \<^verbatim>\<open>selectArea\<close>, and the Area is the one of the first.
\<close>

theorem pointermoveBurst_drops_counterexample:
  "eventToEnable select_session = Select \<and> \<not> handlingMove select_session \<and>
   trace (animationFrame (pointermoveBurst select_session [(110, 120), (130, 140)]))
     = [MutatorCall Select 110 120, DrawCanvas] \<and>
   area_width (area (animationFrame (pointermoveBurst select_session [(110, 120), (130, 140)])))
     = 10"
  by (simp add: select_session_def example_session_def initial_state_def Let_def
        pointermoveBurst_def handlePointermove_def log_mutator_call_def call_mutator_def
        selectArea_def requestAnimationFrame_def animationFrame_def drawCanvas_def)

lemma snaps_to_unique:
  assumes "snaps_to pos ext lower upper v" and "snaps_to pos ext lower upper w"
  shows "v = w"
  using assms unfolding snaps_to_def Let_def
  by (cases "\<bar>pos + min 0 ext - lower\<bar> < 8"; cases "\<bar>pos + max 0 ext - upper\<bar> < 8";
      simp add: not_less)

lemma moveArea_no_pointer:
  assumes "pointerPosition st = None"
  shows "moveArea st px py = Inl TypeError"
  using assms by (simp add: moveArea_def updatePoint_def Let_def)

lemma moveArea_same_area:
  assumes same: "pointerPosition st2 = pointerPosition st" "area st2 = area st"
      "snapArea st2 = snapArea st" "transform st2 = transform st"
      "canvasImage_width st2 = canvasImage_width st"
      "canvasImage_height st2 = canvasImage_height st"
    and m: "moveArea st px py = Inr m" and m2: "moveArea st2 px py = Inr m2"
  shows "area m2 = area m"
proof -
  from m obtain pp where pp: "pointerPosition st = Some pp"
    using moveArea_no_pointer [of st px py] by (cases "pointerPosition st") auto
  show ?thesis
  proof (cases "snapArea st")
    case False
    with m m2 same pp show ?thesis
      by (auto simp: moveArea_def)
  next
    case True
    from moveArea_snapped [OF True pp, of px py] m
    obtain nx ny where a: "m = st\<lparr>area := (area st)\<lparr>area_x := nx, area_y := ny\<rparr>\<rparr>"
      and x: "snaps_to (px - point_x pp) (area_width (area st)) (tr_e (transform st))
             (tr_e (transform st) + of_int (canvasImage_width st) * tr_a (transform st)) nx"
      and y: "snaps_to (py - point_y pp) (area_height (area st)) (tr_f (transform st))
             (tr_f (transform st) + of_int (canvasImage_height st) * tr_a (transform st)) ny"
      by auto
    have "snapArea st2" and "pointerPosition st2 = Some pp"
      using True pp same by simp_all
    from moveArea_snapped [OF this, of px py] m2
    obtain nx2 ny2 where a2: "m2 = st2\<lparr>area := (area st2)\<lparr>area_x := nx2, area_y := ny2\<rparr>\<rparr>"
      and x2: "snaps_to (px - point_x pp) (area_width (area st2)) (tr_e (transform st2))
             (tr_e (transform st2) + of_int (canvasImage_width st2) * tr_a (transform st2)) nx2"
      and y2: "snaps_to (py - point_y pp) (area_height (area st2)) (tr_f (transform st2))
             (tr_f (transform st2) + of_int (canvasImage_height st2) * tr_a (transform st2)) ny2"
      by auto
    from x x2 same have "nx2 = nx"
      by (simp add: snaps_to_unique)
    moreover from y y2 same have "ny2 = ny"
      by (simp add: snaps_to_unique)
    ultimately show ?thesis
      using a a2 same by simp
  qed
qed

lemma clamp_forms: "(if (0::real) < c then c else 0) = (if c < 0 then 0 else c)"
  by simp

lemma handlePointermove_clamped_again:
  "handlePointermove st cx cy =
     handlePointermove st (if cx < 0 then 0 else cx) (if cy < 0 then 0 else cy)"
proof -
  have "(if (0::real) < (if c < 0 then 0 else c) then (if c < 0 then 0 else c) else 0)
      = (if 0 < c then c else 0)" for c :: real
    by simp
  then show ?thesis
    unfolding handlePointermove_def by (simp only:)
qed

lemma handlePointermove_dispatch:
  assumes "\<not> handlingMove st"
  shows "handlePointermove st cx cy =
     (let px = (if cx < 0 then 0 else cx); py = (if cy < 0 then 0 else cy);
          st2 = log_mutator_call (st\<lparr>handlingMove := True\<rparr>) px py
      in case call_mutator st2 px py of
           Inl err \<Rightarrow> st2\<lparr>uncaught := uncaught st2 @ [err]\<rparr>
         | Inr st3 \<Rightarrow> requestAnimationFrame MoveDoneCb st3)"
  using assms unfolding handlePointermove_def Let_def clamp_forms by (simp only: if_False)

lemma handlePointermove_select:
  assumes "\<not> handlingMove st" and "eventToEnable st = Select"
  shows "area (handlePointermove st cx cy)
           = area (selectArea st (if cx < 0 then 0 else cx) (if cy < 0 then 0 else cy))"
    and "transform (handlePointermove st cx cy) = transform st"
  unfolding handlePointermove_dispatch [OF assms(1)]
  using assms(2)
  by (simp_all add: Let_def log_mutator_call_def call_mutator_def selectArea_def
        requestAnimationFrame_def)

lemma handlePointermove_resize:
  assumes "\<not> handlingMove st" and "eventToEnable st = Resize"
  shows "area (handlePointermove st cx cy)
           = area (resizeArea st (if cx < 0 then 0 else cx) (if cy < 0 then 0 else cy))"
    and "transform (handlePointermove st cx cy) = transform st"
  unfolding handlePointermove_dispatch [OF assms(1)]
  using assms(2)
  by (simp_all add: Let_def log_mutator_call_def call_mutator_def resizeArea_def
        requestAnimationFrame_def)

lemma handlePointermove_drag:
  assumes "\<not> handlingMove st" and "eventToEnable st = Drag"
  shows "transform (handlePointermove st cx cy)
           = transform (dragImage st (if cx < 0 then 0 else cx) (if cy < 0 then 0 else cy))"
    and "area (handlePointermove st cx cy) = area st"
  unfolding handlePointermove_dispatch [OF assms(1)]
  using assms(2)
  by (simp_all add: Let_def log_mutator_call_def call_mutator_def dragImage_def
        requestAnimationFrame_def split: option.splits)

lemma handlePointermove_idle:
  assumes "\<not> handlingMove st" and "eventToEnable st = NoGesture"
  shows "area (handlePointermove st cx cy) = area st"
    and "transform (handlePointermove st cx cy) = transform st"
  unfolding handlePointermove_dispatch [OF assms(1)]
  using assms(2)
  by (simp_all add: Let_def log_mutator_call_def call_mutator_def requestAnimationFrame_def)

lemma handlePointermove_move:
  assumes "\<not> handlingMove st" and "eventToEnable st = Move"
  shows "moveArea st (if cx < 0 then 0 else cx) (if cy < 0 then 0 else cy) = Inr m
           \<Longrightarrow> area (handlePointermove st cx cy) = area m"
    and "transform (handlePointermove st cx cy) = transform st"
proof -
  let ?px = "if cx < 0 then 0 else cx" and ?py = "if cy < 0 then 0 else cy"
  let ?st2 = "log_mutator_call (st\<lparr>handlingMove := True\<rparr>) ?px ?py"
  have same: "pointerPosition ?st2 = pointerPosition st" "area ?st2 = area st"
      "snapArea ?st2 = snapArea st" "transform ?st2 = transform st"
      "canvasImage_width ?st2 = canvasImage_width st"
      "canvasImage_height ?st2 = canvasImage_height st"
      "eventToEnable ?st2 = Move"
    using assms(2) by (simp_all add: log_mutator_call_def)
  have h: "handlePointermove st cx cy =
      (case moveArea ?st2 ?px ?py of
         Inl err \<Rightarrow> ?st2\<lparr>uncaught := uncaught ?st2 @ [err]\<rparr>
       | Inr st3 \<Rightarrow> requestAnimationFrame MoveDoneCb st3)"
    unfolding handlePointermove_dispatch [OF assms(1)] Let_def
    using same(7) by (simp add: call_mutator_def)
  show "transform (handlePointermove st cx cy) = transform st"
  proof (cases "moveArea ?st2 ?px ?py")
    case (Inl err)
    with h same show ?thesis by simp
  next
    case (Inr m2)
    from moveArea_only_area [OF Inr] obtain a where "m2 = ?st2\<lparr>area := a\<rparr>"
      by blast
    then have "transform m2 = transform ?st2"
      by simp
    with h Inr same show ?thesis
      by (simp add: requestAnimationFrame_def)
  qed
  show "area (handlePointermove st cx cy) = area m"
    if m: "moveArea st ?px ?py = Inr m"
  proof -
    from m obtain pp where "pointerPosition st = Some pp"
      using moveArea_no_pointer [of st ?px ?py] by (cases "pointerPosition st") auto
    with same have "pointerPosition ?st2 = Some pp"
      by simp
    from moveArea_returns [OF this, of ?px ?py]
    obtain m2 where m2: "moveArea ?st2 ?px ?py = Inr m2"
      by blast
    from moveArea_same_area [OF same(1-6) m m2] have "area m2 = area m" .
    with h m2 show ?thesis
      by (simp add: requestAnimationFrame_def)
  qed
qed

text \<open>
  C10. A pointer-move event is handled as the same event with each negative coordinate
  replaced by 0: the two give the same state. While a move is in flight the event changes
  nothing and no mutator runs. Otherwise the mutator of the active gesture runs at the
  clamped coordinates, which are not negative, and its effect is what the handler leaves:
  the Area of \<^verbatim>\<open>selectArea\<close>, \<^verbatim>\<open>resizeArea\<close> or \<^verbatim>\<open>moveArea\<close> at
  those coordinates, or the Transform of \<^verbatim>\<open>dragImage\<close> at them. The trace shows
  the same: whatever pointer-move events are handled, every mutator call they add has
  non-negative coordinates, and the call of a handled event carries the clamped ones.
\<close>

theorem handlePointermove_clamps:
  "let px = (if cx < 0 then 0 else cx); py = (if cy < 0 then 0 else cy);
       st' = handlePointermove st cx cy
   in 0 \<le> px \<and> 0 \<le> py \<and>
      handlePointermove st px py = st' \<and>
      (handlingMove st \<longrightarrow> st' = st) \<and>
      (\<not> handlingMove st \<longrightarrow>
         (eventToEnable st = Select \<longrightarrow>
            area st' = area (selectArea st px py) \<and> transform st' = transform st) \<and>
         (eventToEnable st = Resize \<longrightarrow>
            area st' = area (resizeArea st px py) \<and> transform st' = transform st) \<and>
         (eventToEnable st = Move \<longrightarrow>
            (\<forall>m. moveArea st px py = Inr m \<longrightarrow> area st' = area m) \<and>
            transform st' = transform st) \<and>
         (eventToEnable st = Drag \<longrightarrow>
            transform st' = transform (dragImage st px py) \<and> area st' = area st) \<and>
         (eventToEnable st = NoGesture \<longrightarrow>
            area st' = area st \<and> transform st' = transform st)) \<and>
      list_all nonneg_call (drop (length (trace st)) (trace (pointermoveBurst st moves))) \<and>
      (\<not> handlingMove st \<and> eventToEnable st \<noteq> NoGesture \<and>
       (eventToEnable st = Move \<longrightarrow> pointerPosition st \<noteq> None) \<longrightarrow>
         drop (length (trace st)) (trace st') = [MutatorCall (eventToEnable st) px py])"
proof -
  let ?px = "if cx < 0 then 0 else cx" and ?py = "if cy < 0 then 0 else cy"
  have nonneg: "0 \<le> ?px" "0 \<le> ?py"
    by simp_all
  have again: "handlePointermove st ?px ?py = handlePointermove st cx cy"
    by (rule handlePointermove_clamped_again [symmetric])
  have busy: "handlingMove st \<longrightarrow> handlePointermove st cx cy = st"
    by (simp add: handlePointermove_busy)
  have burst: "list_all nonneg_call (drop (length (trace st)) (trace (pointermoveBurst st moves)))"
    using pointermoveBurst_trace [of st moves] by auto
  have m: "max 0 cx = ?px" "max 0 cy = ?py"
    by simp_all
  have logged: "\<not> handlingMove st \<and> eventToEnable st \<noteq> NoGesture \<and>
       (eventToEnable st = Move \<longrightarrow> pointerPosition st \<noteq> None) \<longrightarrow>
         drop (length (trace st)) (trace (handlePointermove st cx cy))
           = [MutatorCall (eventToEnable st) ?px ?py]"
    using handlePointermove_first [of st cx cy] unfolding m by simp
  have effect: "\<not> handlingMove st \<longrightarrow>
         (eventToEnable st = Select \<longrightarrow>
            area (handlePointermove st cx cy) = area (selectArea st ?px ?py) \<and>
            transform (handlePointermove st cx cy) = transform st) \<and>
         (eventToEnable st = Resize \<longrightarrow>
            area (handlePointermove st cx cy) = area (resizeArea st ?px ?py) \<and>
            transform (handlePointermove st cx cy) = transform st) \<and>
         (eventToEnable st = Move \<longrightarrow>
            (\<forall>m. moveArea st ?px ?py = Inr m \<longrightarrow> area (handlePointermove st cx cy) = area m) \<and>
            transform (handlePointermove st cx cy) = transform st) \<and>
         (eventToEnable st = Drag \<longrightarrow>
            transform (handlePointermove st cx cy) = transform (dragImage st ?px ?py) \<and>
            area (handlePointermove st cx cy) = area st) \<and>
         (eventToEnable st = NoGesture \<longrightarrow>
            area (handlePointermove st cx cy) = area st \<and>
            transform (handlePointermove st cx cy) = transform st)"
    using handlePointermove_select [of st cx cy] handlePointermove_resize [of st cx cy]
      handlePointermove_move [of st cx cy] handlePointermove_drag [of st cx cy]
      handlePointermove_idle [of st cx cy]
    by blast
  from nonneg again busy effect burst logged show ?thesis
    unfolding Let_def by (intro conjI)
qed

theorem handlePointermove_clamps_witness:
  "\<not> handlingMove select_session \<and> eventToEnable select_session = Select \<and>
   area (handlePointermove select_session (- 5) 30) =
     \<lparr>area_x = 100, area_y = 100, area_width = - 100, area_height = - 70\<rparr> \<and>
   trace (handlePointermove select_session (- 5) 30) = [MutatorCall Select 0 30] \<and>
   nonneg_call (MutatorCall Select 0 30)"
proof -
  have fields: "\<not> handlingMove select_session" "eventToEnable select_session = Select"
    "trace select_session = []"
    "area select_session = \<lparr>area_x = 100, area_y = 100, area_width = 200, area_height = 100\<rparr>"
    by (simp_all add: select_session_def example_session_def initial_state_def)
  note inst = handlePointermove_clamps [of "- 5" 30 select_session "[(- 5, 30)]", unfolded Let_def]
  from inst fields have "area (handlePointermove select_session (- 5) 30)
      = area (selectArea select_session 0 30)"
    by simp
  moreover from inst fields have "trace (handlePointermove select_session (- 5) 30)
      = [MutatorCall Select 0 30]"
    by simp
  ultimately show ?thesis
    using fields by (simp add: selectArea_def)
qed

section \<open>Crop extraction\<close>

lemma Math_round_round: "Math_round v = round v"
  by (simp add: Math_round_def round_def)

lemma getCroppedCanvas_cases:
  "getCroppedCanvas browser st img =
     (if rect_width (transformedArea st) = 0 \<or> rect_height (transformedArea st) = 0
      then Inl IndexSizeError
      else Inr (ctx_putImageData browser
             (blank_canvas \<bar>rect_width (transformedArea st)\<bar> \<bar>rect_height (transformedArea st)\<bar>)
             (projr (getImageData browser st
                (Math_round (of_int (canvasWidth st) / tr_a (transform st)))
                (Math_round (of_int (canvasHeight st) / tr_a (transform st)))
                (tr_e (transform st) / tr_a (transform st))
                (tr_f (transform st) / tr_a (transform st)) img (transformedArea st))) 0 0))"
  by (simp add: getCroppedCanvas_def getImageData_def ctx_getImageData_def Let_def)

text \<open>
  C1, as the code has it. Extraction fails exactly when the Area's width or height, divided
  by the scale and rounded, is 0: \<^verbatim>\<open>getImageData\<close> then throws an
  \<^verbatim>\<open>IndexSizeError\<close>, which rejects the promise, and no raster is produced; this is so
  in particular for an Area of zero width or height, such as \<^verbatim>\<open>{0,0,0,0}\<close>. When
  both are non-zero, also when they are negative, extraction produces a raster whose width
  and height are their absolute values.
\<close>

theorem getCanvasSlice_region:
  "let ta = transformedArea st in
     (rect_width ta = 0 \<or> rect_height ta = 0 \<longrightarrow>
        getCanvasSlice browser st img mime = Inl IndexSizeError) \<and>
     (rect_width ta \<noteq> 0 \<and> rect_height ta \<noteq> 0 \<longrightarrow>
        (\<exists>slice. getCanvasSlice browser st img mime = Inr slice \<and>
           slice_width slice = \<bar>rect_width ta\<bar> \<and> slice_height slice = \<bar>rect_height ta\<bar>)) \<and>
     (area_width (area st) = 0 \<or> area_height (area st) = 0 \<longrightarrow>
        getCanvasSlice browser st img mime = Inl IndexSizeError)"
proof -
  have zero: "area_width (area st) = 0 \<or> area_height (area st) = 0 \<Longrightarrow>
      rect_width (transformedArea st) = 0 \<or> rect_height (transformedArea st) = 0"
    by (auto simp: transformedArea_def Let_def Math_round_round)
  show ?thesis
    unfolding Let_def getCanvasSlice_def getCroppedCanvas_cases
    using zero
    by (auto simp: ctx_putImageData_def blank_canvas_def)
qed

theorem getCanvasSlice_region_witness:
  "getCanvasSlice blank_rasteriser initial_state (red_image 400 300) ''image/png''
     = Inl IndexSizeError \<and>
   slice_width (projr (getCanvasSlice blank_rasteriser example_session (red_image 400 300) ''image/png''))
     = 200"
  using getCanvasSlice_region [of initial_state blank_rasteriser "red_image 400 300" "''image/png''"]
        getCanvasSlice_region [of example_session blank_rasteriser "red_image 400 300" "''image/png''"]
  by (auto simp: Let_def initial_state_def example_session_def resetArea_def transformedArea_def
        Math_round_round)

text \<open>
  An Area of width and height \<open>-60\<close> at scale 1: both resolve to a value below 0, and
  extraction produces a raster of 60 by 60 pixels.
\<close>

theorem getCanvasSlice_negative_counterexample:
  "Math_round (area_width (area backwards_session) / tr_a (transform backwards_session)) \<le> 0 \<and>
   Math_round (area_height (area backwards_session) / tr_a (transform backwards_session)) \<le> 0 \<and>
   \<not> isl (getCanvasSlice blank_rasteriser backwards_session (red_image 400 300) ''image/png'') \<and>
   slice_width (projr (getCanvasSlice blank_rasteriser backwards_session (red_image 400 300) ''image/png''))
     = 60 \<and>
   slice_height (projr (getCanvasSlice blank_rasteriser backwards_session (red_image 400 300) ''image/png''))
     = 60"
  by (simp add: getCanvasSlice_def getCroppedCanvas_cases transformedArea_def Let_def
        backwards_session_def example_session_def initial_state_def Math_round_round
        ctx_putImageData_def blank_canvas_def)

lemma stored_pixel_opaque: "alpha_of p = 255 \<Longrightarrow> stored_pixel browser p = p"
  by (simp add: stored_pixel_def)

lemma stored_pixel_transparent: "stored_pixel browser transparent = transparent"
  by (simp add: stored_pixel_def alpha_of_def transparent_def)

lemma pixel_at_raster:
  "pixel_at \<lparr>r_width = cw, r_height = ch, r_pixels = f\<rparr> i j =
     (if 0 \<le> i \<and> i < cw \<and> 0 \<le> j \<and> j < ch then f i j else transparent)"
  by (simp add: pixel_at_def)

lemma drawImage_identity:
  assumes "rotation st = 0" and "flip st = \<lparr>flipH = 1, flipV = 1\<rparr>"
  shows "drawImage browser st cw ch 0 0 img =
           \<lparr>r_width = cw, r_height = ch,
            r_pixels = (\<lambda>i j. stored_pixel browser (pixel_at img i j))\<rparr>"
  using assms by (simp add: drawImage_def is_whole_def)

lemma transformedArea_identity:
  assumes "tr_a (transform st) = 1"
    and "area st = \<lparr>area_x = of_int x, area_y = of_int y,
                     area_width = of_int w, area_height = of_int h\<rparr>"
  shows "transformedArea st = \<lparr>rect_x = x, rect_y = y, rect_width = w, rect_height = h\<rparr>"
  using assms by (simp add: transformedArea_def Math_round_round)

text \<open>
  C2, as the code has it. At scale 1, translation \<open>(0, 0)\<close>, rotation 0 and identity flip,
  for an Area \<open>(x, y, w, h)\<close> of whole pixels with \<open>w > 0\<close> and \<open>h > 0\<close> inside the
  image: the Area converts to \<open>(x, y, w, h)\<close> itself, and extraction produces a raster
  of exactly \<open>w\<close> by \<open>h\<close> pixels. Its pixel \<open>(i, j)\<close> is transparent black where the
  source position \<open>(x + i, y + j)\<close> is outside the viewport (the offscreen canvas has the
  viewport's size). Inside the viewport it is the source pixel when that pixel is opaque;
  a pixel that is not opaque has passed through a canvas twice (drawn, read, and put
  back) and is what the browser's premultiplied storage makes of it. So the raster is the
  source's sub-block when the Area also lies inside the viewport and the sub-block is
  opaque.
\<close>

theorem getCroppedCanvas_identity:
  assumes "tr_a (transform st) = 1" and "tr_e (transform st) = 0" and "tr_f (transform st) = 0"
    and "rotation st = 0" and "flip st = \<lparr>flipH = 1, flipV = 1\<rparr>"
    and "area st = \<lparr>area_x = of_int x, area_y = of_int y,
                     area_width = of_int w, area_height = of_int h\<rparr>"
    and "0 < w" and "0 < h" and "0 \<le> x" and "0 \<le> y"
    and "x + w \<le> r_width img" and "y + h \<le> r_height img"
  shows "transformedArea st = \<lparr>rect_x = x, rect_y = y, rect_width = w, rect_height = h\<rparr> \<and>
         (\<exists>c. getCroppedCanvas browser st img = Inr c \<and> r_width c = w \<and> r_height c = h \<and>
              (\<forall>i j. 0 \<le> i \<and> i < w \<and> 0 \<le> j \<and> j < h \<longrightarrow>
                 pixel_at c i j =
                   (if x + i < canvasWidth st \<and> y + j < canvasHeight st
                    then (if alpha_of (pixel_at img (x + i) (y + j)) = 255
                          then pixel_at img (x + i) (y + j)
                          else stored_pixel browser
                                 (stored_pixel browser (pixel_at img (x + i) (y + j))))
                    else transparent)))"
proof -
  note ta = transformedArea_identity [OF assms(1) assms(6)]
  let ?canvas = "\<lparr>r_width = canvasWidth st, r_height = canvasHeight st,
                   r_pixels = (\<lambda>i j. stored_pixel browser (pixel_at img i j))\<rparr>"
  let ?data = "\<lparr>r_width = w, r_height = h,
                 r_pixels = (\<lambda>i j. pixel_at ?canvas (x + i) (y + j))\<rparr>"
  let ?c = "ctx_putImageData browser (blank_canvas w h) ?data 0 0"
  have "getImageData browser st (canvasWidth st) (canvasHeight st) 0 0 img
          (transformedArea st) = Inr ?data"
    using assms(7,8)
    by (simp add: getImageData_def ctx_getImageData_def ta
          drawImage_identity [OF assms(4) assms(5)])
  then have crop: "getCroppedCanvas browser st img = Inr ?c"
    using assms(1-3) by (simp add: getCroppedCanvas_def Let_def Math_round_round)
  have dims: "r_width ?c = w" "r_height ?c = h"
    by (simp_all add: ctx_putImageData_def blank_canvas_def)
  have px: "pixel_at ?c i j =
      (if x + i < canvasWidth st \<and> y + j < canvasHeight st
       then (if alpha_of (pixel_at img (x + i) (y + j)) = 255
             then pixel_at img (x + i) (y + j)
             else stored_pixel browser (stored_pixel browser (pixel_at img (x + i) (y + j))))
       else transparent)"
    if "0 \<le> i \<and> i < w \<and> 0 \<le> j \<and> j < h" for i j
  proof -
    have "pixel_at ?c i j = stored_pixel browser (pixel_at ?canvas (x + i) (y + j))"
      using that by (simp add: ctx_putImageData_def blank_canvas_def pixel_at_raster)
    also have "pixel_at ?canvas (x + i) (y + j) =
        (if x + i < canvasWidth st \<and> y + j < canvasHeight st
         then stored_pixel browser (pixel_at img (x + i) (y + j)) else transparent)"
      using that assms(9,10) by (simp add: pixel_at_raster)
    finally show ?thesis
      by (simp add: stored_pixel_transparent stored_pixel_opaque)
  qed
  from ta crop dims px show ?thesis
    by blast
qed

theorem getCroppedCanvas_identity_witness:
  "tr_a (transform example_session) = 1 \<and> rotation example_session = 0 \<and>
   area example_session =
     \<lparr>area_x = of_int 100, area_y = of_int 100, area_width = of_int 200, area_height = of_int 100\<rparr> \<and>
   r_width (projr (getCroppedCanvas blank_rasteriser example_session (red_image 400 300))) = 200 \<and>
   r_height (projr (getCroppedCanvas blank_rasteriser example_session (red_image 400 300))) = 100 \<and>
   alpha_of (pixel_at (red_image 400 300) 299 199) = 255 \<and>
   pixel_at (projr (getCroppedCanvas blank_rasteriser example_session (red_image 400 300))) 199 99
     = pixel_at (red_image 400 300) 299 199"
  using getCroppedCanvas_identity
          [of example_session 100 100 200 100 "red_image 400 300" blank_rasteriser]
  by (auto simp: example_session_def initial_state_def red_image_def pixel_at_def
        opaque_red_def alpha_of_def)

text \<open>
  The image is wider than the viewport and the Area reaches past the viewport's right end:
  there the raster is transparent where the source is red.
\<close>

theorem getCroppedCanvas_viewport_counterexample:
  "tr_a (transform large_session) = 1 \<and> tr_e (transform large_session) = 0 \<and>
   tr_f (transform large_session) = 0 \<and> rotation large_session = 0 \<and>
   flip large_session = \<lparr>flipH = 1, flipV = 1\<rparr> \<and>
   area large_session = \<lparr>area_x = 700, area_y = 0, area_width = 200, area_height = 100\<rparr> \<and>
   pixel_at (red_image 1000 700) (700 + 150) (0 + 50) = opaque_red \<and>
   pixel_at (projr (getCroppedCanvas blank_rasteriser large_session (red_image 1000 700))) 150 50
     = transparent \<and>
   opaque_red \<noteq> transparent"
  by (simp add: getCroppedCanvas_def getImageData_def ctx_getImageData_def drawImage_def
        ctx_putImageData_def blank_canvas_def transformedArea_def is_whole_def Let_def
        Math_round_round pixel_at_def red_image_def opaque_red_def transparent_def
        stored_pixel_def alpha_of_def
        large_session_def example_session_def initial_state_def)

end
